theory Spec2Isabelle
  imports Main
begin

section \<open>Values, errors and strings of the gold price service\<close>

text \<open>
  Strings are sequences of bytes (the UTF-8 encoding of the TypeScript string). Every
  operation of the service that looks at single characters (the digit and word classes
  of the regular expression in \<open>formatNumber\<close>) distinguishes ASCII characters only,
  and every byte of an encoded non-ASCII character is, like the character itself,
  neither a digit nor a word character.

  JavaScript numbers are a type parameter \<open>'n\<close>. \<open>Number.prototype.toString\<close> belongs
  to the language, not to the repository: it is the parameter \<open>n2s\<close> of every function
  that renders a number.
\<close>

datatype 'n js_error =
    TypeError
  | PlainError string
  | AxiosError "('n \<times> string) option"
  | GoldPriceError string string

text \<open>
  \<open>GoldPriceError message source\<close> is the class of the same name (message first, as
  in its constructor). \<open>AxiosError response\<close> carries \<open>error.response\<close> when there
  is one: its \<open>status\<close> and its \<open>statusText\<close>.
\<close>

datatype 'n jsvalue = JUndefined | JNumber 'n | JString string

definition ofNumber :: "'n option \<Rightarrow> 'n jsvalue" where
  "ofNumber v = (case v of None \<Rightarrow> JUndefined | Some n \<Rightarrow> JNumber n)"

definition ofString :: "string option \<Rightarrow> 'n jsvalue" where
  "ofString v = (case v of None \<Rightarrow> JUndefined | Some s \<Rightarrow> JString s)"

text \<open>\<open>v.toString()\<close>: a TypeError on \<open>undefined\<close>.\<close>

definition toString :: "('n \<Rightarrow> string) \<Rightarrow> 'n jsvalue \<Rightarrow> 'n js_error + string" where
  "toString n2s v =
     (case v of
        JUndefined \<Rightarrow> Inl TypeError
      | JNumber n \<Rightarrow> Inr (n2s n)
      | JString s \<Rightarrow> Inr s)"

text \<open>Decimal rendering of a natural number, the instance of \<open>n2s\<close> of the examples.\<close>

definition digitChar :: "nat \<Rightarrow> char" where
  "digitChar d = ''0123456789'' ! d"

fun showNat :: "nat \<Rightarrow> string" where
  "showNat n = (if n < 10 then [digitChar n] else showNat (n div 10) @ [digitChar (n mod 10)])"

declare showNat.simps [simp del]

section \<open>formatNumber\<close>

text \<open>
  \<^verbatim>\<open>numStr.replace(/\B(?=(\d{3})+(?!\d))/g, ',')\<close>

  The pattern matches the empty string at a position. The replacement walks the
  positions of the string from left to right and writes a comma at each one where
  the pattern matches.
\<close>

definition isDigit :: "char \<Rightarrow> bool" where
  "isDigit c = (c \<in> set ''0123456789'')"

definition isWordChar :: "char \<Rightarrow> bool" where
  "isWordChar c =
     (c \<in> set ''abcdefghijklmnopqrstuvwxyzABCDEFGHIJKLMNOPQRSTUVWXYZ0123456789_'')"

text \<open>\<open>(?!\d)\<close>: the next character, if there is one, is not a digit.\<close>

fun notDigitAhead :: "string \<Rightarrow> bool" where
  "notDigitAhead [] = True"
| "notDigitAhead (c # cs) = (\<not> isDigit c)"

text \<open>\<open>(\d{3})+(?!\d)\<close>: one group of three digits, then either the end test or more groups.\<close>

fun groupsAhead :: "string \<Rightarrow> bool" where
  "groupsAhead (a # b # c # rest) =
     (isDigit a \<and> isDigit b \<and> isDigit c \<and> (notDigitAhead rest \<or> groupsAhead rest))"
| "groupsAhead _ = False"

text \<open>\<open>\B\<close>: the characters before and after the position are both word characters or both not.\<close>

definition wordBefore :: "char option \<Rightarrow> bool" where
  "wordBefore prev = (case prev of None \<Rightarrow> False | Some c \<Rightarrow> isWordChar c)"

fun wordAfter :: "string \<Rightarrow> bool" where
  "wordAfter [] = False"
| "wordAfter (c # cs) = isWordChar c"

definition matchesAt :: "char option \<Rightarrow> string \<Rightarrow> bool" where
  "matchesAt prev rest = ((wordBefore prev = wordAfter rest) \<and> groupsAhead rest)"

fun replaceFrom :: "char option \<Rightarrow> string \<Rightarrow> string" where
  "replaceFrom prev [] = (if matchesAt prev [] then '','' else [])"
| "replaceFrom prev (c # cs) =
     (if matchesAt prev (c # cs) then '','' else []) @ c # replaceFrom (Some c) cs"

definition formatNumber :: "('n \<Rightarrow> string) \<Rightarrow> 'n jsvalue \<Rightarrow> 'n js_error + string" where
  "formatNumber n2s num =
     (case toString n2s num of
        Inl e \<Rightarrow> Inl e
      | Inr numStr \<Rightarrow> Inr (replaceFrom None numStr))"


section \<open>Reading properties, filtering and mapping with callbacks that may throw\<close>

text \<open>
  The payload types follow the interfaces of the service (\<open>GoldApiResponse\<close>,
  \<open>DojiGoldResponse\<close>, \<open>BTMCGoldResponse\<close>), keeping the properties that the code
  reads. The interfaces are erased at run time, so every property may be missing:
  a property is an option, \<open>None\<close> for \<open>undefined\<close>, and reading a property of
  \<open>undefined\<close> is a TypeError.
\<close>

type_synonym ('n, 'd) axios_result = "'n js_error + 'd"

fun filterE :: "('a \<Rightarrow> 'e + bool) \<Rightarrow> 'a list \<Rightarrow> 'e + 'a list" where
  "filterE p [] = Inr []"
| "filterE p (x # xs) =
     (case p x of
        Inl e \<Rightarrow> Inl e
      | Inr keep \<Rightarrow>
          (case filterE p xs of
             Inl e \<Rightarrow> Inl e
           | Inr ys \<Rightarrow> Inr (if keep then x # ys else ys)))"

fun mapE :: "('a \<Rightarrow> 'e + 'b) \<Rightarrow> 'a list \<Rightarrow> 'e + 'b list" where
  "mapE f [] = Inr []"
| "mapE f (x # xs) =
     (case f x of
        Inl e \<Rightarrow> Inl e
      | Inr y \<Rightarrow> (case mapE f xs of Inl e \<Rightarrow> Inl e | Inr ys \<Rightarrow> Inr (y # ys)))"

text \<open>\<open>lines.join('\n')\<close>\<close>

fun joinLines :: "string list \<Rightarrow> string" where
  "joinLines [] = []"
| "joinLines [l] = l"
| "joinLines (l # m # ls) = l @ ''\<newline>'' @ joinLines (m # ls)"

text \<open>\<open>s.includes(sub)\<close> on strings.\<close>

fun includesStr :: "string \<Rightarrow> string \<Rightarrow> bool" where
  "includesStr [] sub = (sub = [])"
| "includesStr (c # cs) sub = (take (length sub) (c # cs) = sub \<or> includesStr cs sub)"

text \<open>The error message of the three catch blocks for an AxiosError:
  \<^verbatim>\<open>`API Error: ${error.response?.status} - ${error.response?.statusText}`\<close>\<close>

definition apiErrorMessage :: "('n \<Rightarrow> string) \<Rightarrow> ('n \<times> string) option \<Rightarrow> string" where
  "apiErrorMessage n2s response =
     ''API Error: ''
       @ (case response of None \<Rightarrow> ''undefined'' | Some (status, statusText) \<Rightarrow> n2s status)
       @ '' - ''
       @ (case response of None \<Rightarrow> ''undefined'' | Some (status, statusText) \<Rightarrow> statusText)"

section \<open>fetchWorldGoldPrice\<close>

record 'n GoldApiResponse =
  price :: "'n option"

text \<open>
  The argument is the outcome of \<open>axios.get\<close>: rejected with an error, or resolved
  with \<open>response.data\<close> (\<open>None\<close> for a \<open>null\<close> body). The result is the error thrown
  or the value returned, \<open>None\<close> for \<open>undefined\<close>.
\<close>

definition fetchWorldGoldPrice ::
  "('n \<Rightarrow> string) \<Rightarrow> ('n, 'n GoldApiResponse option) axios_result \<Rightarrow> 'n js_error + 'n option" where
  "fetchWorldGoldPrice n2s api =
     (case (case api of
              Inl error \<Rightarrow> Inl error
            | Inr None \<Rightarrow> Inl TypeError
            | Inr (Some data) \<Rightarrow> Inr (price data)) of
        Inr p \<Rightarrow> Inr p
      | Inl (AxiosError response) \<Rightarrow>
          Inl (GoldPriceError (apiErrorMessage n2s response) ''World Gold'')
      | Inl _ \<Rightarrow> Inl (GoldPriceError ''Failed to fetch world gold price'' ''World Gold''))"

section \<open>fetchDojiPrice\<close>

record doji_attrs =
  Name :: "string option"
  Buy :: "string option"
  Sell :: "string option"

record doji_row =
  attrs :: "doji_attrs option"

record doji_table =
  Row :: "doji_row list option"

record gold_list =
  DGPlist :: "doji_table list option"
  JewelryList :: "doji_table list option"

record DojiGoldResponse =
  GoldList :: "gold_list option"

text \<open>\<open>attrs\<close> is the property \<open>$\<close> of a row, where xml2js puts the attributes.\<close>

definition aAcute :: string where
  "aAcute = [CHR 0xC3, CHR 0xA1]"

text \<open>\<open>tables[0].Row\<close>, for \<open>tables\<close> one of \<open>data.GoldList.DGPlist\<close> and
  \<open>data.GoldList.JewelryList\<close>.\<close>

definition firstTableRows :: "doji_table list option \<Rightarrow> 'n js_error + doji_row list" where
  "firstTableRows tables =
     (case tables of
        None \<Rightarrow> Inl TypeError
      | Some [] \<Rightarrow> Inl TypeError
      | Some (t # _) \<Rightarrow> (case Row t of None \<Rightarrow> Inl TypeError | Some rows \<Rightarrow> Inr rows))"

text \<open>\<open>row.$.Name\<close>, \<open>row.$.Buy\<close>, \<open>row.$.Sell\<close>\<close>

definition rowAttr :: "(doji_attrs \<Rightarrow> string option) \<Rightarrow> doji_row \<Rightarrow> 'n js_error + string option" where
  "rowAttr field row = (case attrs row of None \<Rightarrow> Inl TypeError | Some a \<Rightarrow> Inr (field a))"

text \<open>\<open>row.$.Name.includes(marker)\<close>\<close>

definition nameIncludes :: "string \<Rightarrow> doji_row \<Rightarrow> 'n js_error + bool" where
  "nameIncludes marker row =
     (case rowAttr Name row of
        Inl e \<Rightarrow> Inl e
      | Inr None \<Rightarrow> Inl TypeError
      | Inr (Some name) \<Rightarrow> Inr (includesStr name marker))"

definition isBrandRow :: "doji_row \<Rightarrow> 'n js_error + bool" where
  "isBrandRow row = nameIncludes ''DOJI'' row"

definition isPurityRow :: "doji_row \<Rightarrow> 'n js_error + bool" where
  "isPurityRow row =
     (case nameIncludes ''24k'' row of
        Inl e \<Rightarrow> Inl e
      | Inr True \<Rightarrow> Inr True
      | Inr False \<Rightarrow> nameIncludes ''9999'' row)"

text \<open>
  \<^verbatim>\<open>`- ${name}:\n  Mua: ${this.formatNumber(buy)} VND\n  Ban: ${this.formatNumber(sell)} VND`\<close>
  (with a-acute in the last label), the text of the blocks of both local sources.
\<close>

definition priceBlock :: "string \<Rightarrow> string \<Rightarrow> string \<Rightarrow> string" where
  "priceBlock label buy sell =
     ''- '' @ label @ '':\<newline>  Mua: '' @ buy @ '' VND\<newline>  B'' @ aAcute @ ''n: '' @ sell @ '' VND''"

definition formatDojiRow :: "('n \<Rightarrow> string) \<Rightarrow> doji_row \<Rightarrow> 'n js_error + string" where
  "formatDojiRow n2s row =
     (case rowAttr Name row of
        Inl e \<Rightarrow> Inl e
      | Inr name \<Rightarrow>
     (case rowAttr Buy row of
        Inl e \<Rightarrow> Inl e
      | Inr buy \<Rightarrow>
     (case formatNumber n2s (ofString buy) of
        Inl e \<Rightarrow> Inl e
      | Inr buyText \<Rightarrow>
     (case rowAttr Sell row of
        Inl e \<Rightarrow> Inl e
      | Inr sell \<Rightarrow>
     (case formatNumber n2s (ofString sell) of
        Inl e \<Rightarrow> Inl e
      | Inr sellText \<Rightarrow>
          Inr (priceBlock (case name of None \<Rightarrow> ''undefined'' | Some s \<Rightarrow> s) buyText sellText))))))"

text \<open>The body of the \<open>try\<close> block after the response has arrived and has been parsed.\<close>

definition dojiBlocks :: "('n \<Rightarrow> string) \<Rightarrow> DojiGoldResponse \<Rightarrow> 'n js_error + string" where
  "dojiBlocks n2s data =
     (case GoldList data of
        None \<Rightarrow> Inl TypeError
      | Some gl \<Rightarrow>
     (case firstTableRows (DGPlist gl) of
        Inl e \<Rightarrow> Inl e
      | Inr rows \<Rightarrow>
     (case filterE isBrandRow rows of
        Inl e \<Rightarrow> Inl e
      | Inr kept \<Rightarrow>
     (case mapE (formatDojiRow n2s) kept of
        Inl e \<Rightarrow> Inl e
      | Inr blocks \<Rightarrow>
     (let sjcPrices = joinLines blocks in
     (case firstTableRows (JewelryList gl) of
        Inl e \<Rightarrow> Inl e
      | Inr jrows \<Rightarrow>
     (case filterE isPurityRow jrows of
        Inl e \<Rightarrow> Inl e
      | Inr jkept \<Rightarrow>
     (case mapE (formatDojiRow n2s) jkept of
        Inl e \<Rightarrow> Inl e
      | Inr jblocks \<Rightarrow>
     (let jewelryPrices = joinLines jblocks in
      Inr (sjcPrices @ ''\<newline>'' @ jewelryPrices))))))))))"

text \<open>
  The argument is the outcome of \<open>axios.get\<close> followed by
  \<open>parser.parseStringPromise(response.data)\<close>: the request is rejected, or it is
  resolved and the parser rejects the body, or the parser resolves with an object.
\<close>

definition fetchDojiPrice ::
  "('n \<Rightarrow> string) \<Rightarrow> ('n, 'n js_error + DojiGoldResponse) axios_result \<Rightarrow> 'n js_error + string" where
  "fetchDojiPrice n2s api =
     (case (case api of
              Inl error \<Rightarrow> Inl error
            | Inr (Inl parseError) \<Rightarrow> Inl parseError
            | Inr (Inr data) \<Rightarrow> dojiBlocks n2s data) of
        Inr text \<Rightarrow> Inr text
      | Inl (AxiosError response) \<Rightarrow> Inl (GoldPriceError (apiErrorMessage n2s response) ''DOJI'')
      | Inl _ \<Rightarrow> Inl (GoldPriceError ''Failed to fetch DOJI prices'' ''DOJI''))"

section \<open>fetchBaoTinPrice\<close>

text \<open>
  A record of the BTMC payload is an object whose properties are strings
  (\<open>{ [key: string]: string }\<close>): a map from property names to strings.
\<close>

type_synonym btmc_item = "string \<rightharpoonup> string"

record data_list =
  Data :: "btmc_item list option"

record BTMCGoldResponse =
  DataList :: "data_list option"

text \<open>\<open>a || b\<close> on values that are strings or \<open>undefined\<close>: \<open>a\<close> when it is truthy
  (a string that is not empty), otherwise \<open>b\<close>.\<close>

definition truthy :: "string option \<Rightarrow> bool" where
  "truthy v = (case v of None \<Rightarrow> False | Some s \<Rightarrow> s \<noteq> [])"

definition orElse :: "string option \<Rightarrow> string option \<Rightarrow> string option" where
  "orElse a b = (if truthy a then a else b)"

definition itemName :: "btmc_item \<Rightarrow> string option" where
  "itemName item =
     orElse (orElse (orElse (orElse (item ''@n_1'') (item ''@n_2'')) (item ''@n_3''))
       (item ''@n_4'')) (item ''@n_5'')"

definition itemKarat :: "btmc_item \<Rightarrow> string option" where
  "itemKarat item =
     orElse (orElse (orElse (orElse (item ''@k_1'') (item ''@k_2'')) (item ''@k_3''))
       (item ''@k_4'')) (item ''@k_5'')"

definition itemPurity :: "btmc_item \<Rightarrow> string option" where
  "itemPurity item =
     orElse (orElse (orElse (orElse (item ''@h_1'') (item ''@h_2'')) (item ''@h_3''))
       (item ''@h_4'')) (item ''@h_5'')"

definition itemBuyPrice :: "btmc_item \<Rightarrow> string option" where
  "itemBuyPrice item =
     orElse (orElse (orElse (orElse (item ''@pb_1'') (item ''@pb_2'')) (item ''@pb_3''))
       (item ''@pb_4'')) (item ''@pb_5'')"

definition itemSellPrice :: "btmc_item \<Rightarrow> string option" where
  "itemSellPrice item =
     orElse (orElse (orElse (orElse (item ''@ps_1'') (item ''@ps_2'')) (item ''@ps_3''))
       (item ''@ps_4'')) (item ''@ps_5'')"

text \<open>\<open>name?.includes('SJC')\<close> as a condition: \<open>undefined\<close>, hence false, without a name.\<close>

definition nameHasSJC :: "btmc_item \<Rightarrow> bool" where
  "nameHasSJC item = (case itemName item of None \<Rightarrow> False | Some name \<Rightarrow> includesStr name ''SJC'')"

definition keepItem :: "btmc_item \<Rightarrow> bool" where
  "keepItem item =
     (nameHasSJC item \<or> (itemKarat item = Some ''24k'' \<and> itemPurity item = Some ''999.9''))"

definition aGrave :: string where
  "aGrave = [CHR 0xC3, CHR 0xA0]"

definition formatBtmcItem :: "('n \<Rightarrow> string) \<Rightarrow> btmc_item \<Rightarrow> 'n js_error + string" where
  "formatBtmcItem n2s item =
     (let label = (if nameHasSJC item then ''SJC'' else ''V'' @ aGrave @ ''ng 24K (999.9)'') in
      case formatNumber n2s (ofString (itemBuyPrice item)) of
        Inl e \<Rightarrow> Inl e
      | Inr buyText \<Rightarrow>
          (case formatNumber n2s (ofString (itemSellPrice item)) of
             Inl e \<Rightarrow> Inl e
           | Inr sellText \<Rightarrow> Inr (priceBlock label buyText sellText)))"

definition btmcBlocks :: "('n \<Rightarrow> string) \<Rightarrow> BTMCGoldResponse option \<Rightarrow> 'n js_error + string" where
  "btmcBlocks n2s data =
     (case data of
        None \<Rightarrow> Inl TypeError
      | Some d \<Rightarrow>
     (case DataList d of
        None \<Rightarrow> Inl TypeError
      | Some dl \<Rightarrow>
     (case Data dl of
        None \<Rightarrow> Inl TypeError
      | Some items \<Rightarrow>
     (let prices = filter keepItem items in
      case mapE (formatBtmcItem n2s) prices of
        Inl e \<Rightarrow> Inl e
      | Inr blocks \<Rightarrow> Inr (joinLines blocks)))))"

definition fetchBaoTinPrice ::
  "('n \<Rightarrow> string) \<Rightarrow> ('n, BTMCGoldResponse option) axios_result \<Rightarrow> 'n js_error + string" where
  "fetchBaoTinPrice n2s api =
     (case (case api of
              Inl error \<Rightarrow> Inl error
            | Inr data \<Rightarrow> btmcBlocks n2s data) of
        Inr text \<Rightarrow> Inr text
      | Inl (AxiosError response) \<Rightarrow> Inl (GoldPriceError (apiErrorMessage n2s response) ''BTMC'')
      | Inl _ \<Rightarrow> Inl (GoldPriceError ''Failed to fetch BTMC prices'' ''BTMC''))"

section \<open>The cycle: fetchAndNotifyPrices and TelegramService.sendMessage\<close>

text \<open>
  What one cycle meets: the outcome of each of the three requests, the text of
  \<open>new Date().toLocaleString()\<close>, the environment variable \<open>TELEGRAM_CHAT_ID\<close>, and the
  bot, which accepts a text (\<open>None\<close>) or rejects it with an error message.
\<close>

record 'n env =
  goldApi :: "('n, 'n GoldApiResponse option) axios_result"
  dojiApi :: "('n, 'n js_error + DojiGoldResponse) axios_result"
  btmcApi :: "('n, BTMCGoldResponse option) axios_result"
  localeTime :: string
  chatId :: "string option"
  botSend :: "string \<Rightarrow> string option"

text \<open>
  What one cycle does, in order: a request to a source, a call of
  \<open>telegramService.sendMessage\<close> (with the report, or with a warning), a text that
  the bot has accepted. Log lines are left out.
\<close>

datatype api = GoldApi | DojiApi | BtmcApi

datatype notice = Report | Warning

datatype event = Request api | SendMessage notice string | Delivered string

definition sendMessage :: "'n env \<Rightarrow> string \<Rightarrow> event list \<times> ('n js_error + unit)" where
  "sendMessage e message =
     (if chatId e = None \<or> chatId e = Some []
      then ([], Inl (PlainError ''TELEGRAM_CHAT_ID is not defined''))
      else (case botSend e message of
              None \<Rightarrow> ([Delivered message], Inr ())
            | Some reason \<Rightarrow> ([], Inl (PlainError reason))))"

definition clockSign :: string where
  "clockSign = [CHR 0xF0, CHR 0x9F, CHR 0x95, CHR 0x92]"

definition globeSign :: string where
  "globeSign = [CHR 0xF0, CHR 0x9F, CHR 0x8C, CHR 0x8D]"

definition shopSign :: string where
  "shopSign = [CHR 0xF0, CHR 0x9F, CHR 0x8F, CHR 0xAA]"

definition warningSign :: string where
  "warningSign = [CHR 0xE2, CHR 0x9A, CHR 0xA0, CHR 0xEF, CHR 0xB8, CHR 0x8F]"

definition baoTinMinhChau :: string where
  "baoTinMinhChau =
     ''B'' @ [CHR 0xE1, CHR 0xBA, CHR 0xA3] @ ''o T'' @ [CHR 0xC3, CHR 0xAD] @ ''n Minh Ch''
       @ [CHR 0xC3, CHR 0xA2] @ ''u''"

text \<open>The template of the report, lines 117 to 129 of the service.\<close>

definition reportText :: "string \<Rightarrow> string \<Rightarrow> string \<Rightarrow> string \<Rightarrow> string" where
  "reportText now world dojiPrices btmcPrices =
     ''\<newline>'' @ clockSign @ '' Gold Prices Update ('' @ now @ '')\<newline>''
     @ ''\<newline>'' @ globeSign @ '' World Gold Price: $'' @ world @ ''/oz\<newline>''
     @ ''\<newline>'' @ shopSign @ '' Local Gold Shops:\<newline>''
     @ ''\<newline>DOJI:\<newline>'' @ dojiPrices @ ''\<newline>''
     @ ''\<newline>'' @ baoTinMinhChau @ '':\<newline>'' @ btmcPrices @ ''\<newline>      ''"

definition warningText :: "string \<Rightarrow> string \<Rightarrow> string" where
  "warningText source message =
     warningSign @ '' Error fetching '' @ source @ '' prices: '' @ message"

text \<open>
  The \<open>try\<close> block. The first \<open>formatNumber\<close> is the one of the log line after the
  world price has arrived: its text is dropped, an error it throws is not.
\<close>

definition tryBlock :: "('n \<Rightarrow> string) \<Rightarrow> 'n env \<Rightarrow> event list \<times> ('n js_error + unit)" where
  "tryBlock n2s e =
     (case fetchWorldGoldPrice n2s (goldApi e) of
        Inl err \<Rightarrow> ([Request GoldApi], Inl err)
      | Inr worldPrice \<Rightarrow>
     (case formatNumber n2s (ofNumber worldPrice) of
        Inl err \<Rightarrow> ([Request GoldApi], Inl err)
      | Inr logged \<Rightarrow>
     (case fetchDojiPrice n2s (dojiApi e) of
        Inl err \<Rightarrow> ([Request GoldApi, Request DojiApi], Inl err)
      | Inr dojiPrices \<Rightarrow>
     (case fetchBaoTinPrice n2s (btmcApi e) of
        Inl err \<Rightarrow> ([Request GoldApi, Request DojiApi, Request BtmcApi], Inl err)
      | Inr btmcPrices \<Rightarrow>
     (case formatNumber n2s (ofNumber worldPrice) of
        Inl err \<Rightarrow> ([Request GoldApi, Request DojiApi, Request BtmcApi], Inl err)
      | Inr world \<Rightarrow>
     (let message = reportText (localeTime e) world dojiPrices btmcPrices in
      case sendMessage e message of
        (sent, outcome) \<Rightarrow>
          ([Request GoldApi, Request DojiApi, Request BtmcApi, SendMessage Report message] @ sent,
           outcome)))))))"

text \<open>
  The cycle: the events in order, and how the promise settles (\<open>Inr ()\<close> resolved,
  \<open>Inl error\<close> rejected with \<open>error\<close>).
\<close>

definition fetchAndNotifyPrices :: "('n \<Rightarrow> string) \<Rightarrow> 'n env \<Rightarrow> event list \<times> ('n js_error + unit)" where
  "fetchAndNotifyPrices n2s e =
     (case tryBlock n2s e of
        (events, Inr done) \<Rightarrow> (events, Inr done)
      | (events, Inl (GoldPriceError message source)) \<Rightarrow>
          (let warning = warningText source message in
           case sendMessage e warning of
             (sent, outcome) \<Rightarrow> (events @ [SendMessage Warning warning] @ sent, outcome))
      | (events, Inl _) \<Rightarrow> (events, Inr ()))"

text \<open>The requests of a run, its calls of \<open>sendMessage\<close>, and the texts that went out.\<close>

definition requested :: "event list \<Rightarrow> api list" where
  "requested events = concat (map (\<lambda>ev. case ev of Request a \<Rightarrow> [a] | _ \<Rightarrow> []) events)"

definition notices :: "event list \<Rightarrow> (notice \<times> string) list" where
  "notices events =
     concat (map (\<lambda>ev. case ev of SendMessage kind text \<Rightarrow> [(kind, text)] | _ \<Rightarrow> []) events)"

definition delivered :: "event list \<Rightarrow> string list" where
  "delivered events = concat (map (\<lambda>ev. case ev of Delivered text \<Rightarrow> [text] | _ \<Rightarrow> []) events)"

lemmas format_defs =
  formatNumber_def toString_def ofNumber_def ofString_def matchesAt_def wordBefore_def
  isDigit_def isWordChar_def

section \<open>The DOJI block as the specification words it\<close>

text \<open>
  Thousands grouping as the specification words it: separators go into the integer
  portion, the digits before the first character that is not a digit, and what
  follows is left as it is. In the integer portion a comma follows every digit that
  has a positive multiple of three digits after it.
\<close>

definition specDigit :: "char \<Rightarrow> bool" where
  "specDigit c = (c \<in> set ''0123456789'')"

fun specGroupDigits :: "string \<Rightarrow> string" where
  "specGroupDigits [] = []"
| "specGroupDigits (d # ds) =
     d # (if ds \<noteq> [] \<and> length ds mod 3 = 0 then '','' else []) @ specGroupDigits ds"

definition specThousands :: "string \<Rightarrow> string" where
  "specThousands s = specGroupDigits (takeWhile specDigit s) @ dropWhile specDigit s"

text \<open>
  A plain price: digits, at least one, then nothing or a point and at most three
  digits.
\<close>

definition plainPrice :: "string \<Rightarrow> bool" where
  "plainPrice s =
     (takeWhile specDigit s \<noteq> [] \<and>
      (case dropWhile specDigit s of
         [] \<Rightarrow> True
       | c # fs \<Rightarrow> c = CHR ''.'' \<and> list_all specDigit fs \<and> length fs \<le> 3))"

text \<open>
  The filters and the block of a row, following the words of the specification: a
  bullion row is kept when its name has the brand marker, a jewelry row when its name
  has one of the two purity tokens, and a kept row gives a buy line and then a sell
  line, both grouped by thousands. The blocks are concatenated, each on lines of its
  own.
\<close>

definition specBrandRow :: "doji_row \<Rightarrow> bool" where
  "specBrandRow row =
     (case attrs row of
        None \<Rightarrow> False
      | Some a \<Rightarrow> (case Name a of None \<Rightarrow> False | Some name \<Rightarrow> includesStr name ''DOJI''))"

definition specPurityRow :: "doji_row \<Rightarrow> bool" where
  "specPurityRow row =
     (case attrs row of
        None \<Rightarrow> False
      | Some a \<Rightarrow>
          (case Name a of
             None \<Rightarrow> False
           | Some name \<Rightarrow> includesStr name ''24k'' \<or> includesStr name ''9999''))"

definition specRowBlock :: "doji_row \<Rightarrow> string option" where
  "specRowBlock row =
     (case attrs row of
        None \<Rightarrow> None
      | Some a \<Rightarrow>
          (case (Name a, Buy a, Sell a) of
             (Some name, Some buy, Some sell) \<Rightarrow>
               Some (''- '' @ name @ '':\<newline>''
                     @ ''  Mua: '' @ specThousands buy @ '' VND\<newline>''
                     @ ''  B'' @ aAcute @ ''n: '' @ specThousands sell @ '' VND'')
           | _ \<Rightarrow> None))"

definition specPlainPrices :: "doji_row \<Rightarrow> bool" where
  "specPlainPrices row =
     (case attrs row of
        None \<Rightarrow> False
      | Some a \<Rightarrow>
          (case (Buy a, Sell a) of
             (Some buy, Some sell) \<Rightarrow> plainPrice buy \<and> plainPrice sell
           | _ \<Rightarrow> False))"

definition specBlockOf :: "doji_row \<Rightarrow> string \<Rightarrow> bool" where
  "specBlockOf row block = (specPlainPrices row \<longrightarrow> specRowBlock row = Some block)"

definition specJoin :: "string list \<Rightarrow> string" where
  "specJoin blocks =
     concat (map (\<lambda>block. block @ ''\<newline>'') (butlast blocks))
     @ (case blocks of [] \<Rightarrow> [] | _ \<Rightarrow> last blocks)"

section \<open>Example payloads\<close>

text \<open>A BTMC record that fills a different slot for each of its five fields.\<close>

definition mixedSlotsItem :: btmc_item where
  "mixedSlotsItem =
     [''@n_2'' \<mapsto> ''VANG MIENG SJC'', ''@k_1'' \<mapsto> ''24k'', ''@h_4'' \<mapsto> ''999.9'',
      ''@pb_3'' \<mapsto> ''1234567'', ''@ps_5'' \<mapsto> ''1250000'']"

text \<open>A record with five empty buy slots, and one without any buy slot.\<close>

definition emptyBuyItem :: btmc_item where
  "emptyBuyItem =
     [''@n_1'' \<mapsto> ''VANG MIENG SJC'', ''@pb_1'' \<mapsto> '''', ''@pb_2'' \<mapsto> '''', ''@pb_3'' \<mapsto> '''',
      ''@pb_4'' \<mapsto> '''', ''@pb_5'' \<mapsto> '''', ''@ps_1'' \<mapsto> ''1250000'']"

definition noBuyItem :: btmc_item where
  "noBuyItem = [''@n_1'' \<mapsto> ''VANG MIENG SJC'', ''@ps_1'' \<mapsto> ''1250000'']"

definition btmcPayload :: "btmc_item list \<Rightarrow> BTMCGoldResponse option" where
  "btmcPayload items = Some \<lparr>DataList = Some \<lparr>Data = Some items\<rparr>\<rparr>"

text \<open>DOJI rows and tables.\<close>

definition dojiRow :: "string \<Rightarrow> string \<Rightarrow> string \<Rightarrow> doji_row" where
  "dojiRow name buy sell = \<lparr>attrs = Some \<lparr>Name = Some name, Buy = Some buy, Sell = Some sell\<rparr>\<rparr>"

definition dojiPayload :: "doji_table list \<Rightarrow> doji_table list \<Rightarrow> DojiGoldResponse" where
  "dojiPayload tables jtables =
     \<lparr>GoldList = Some \<lparr>DGPlist = Some tables, JewelryList = Some jtables\<rparr>\<rparr>"

definition sjcTable :: doji_table where
  "sjcTable = \<lparr>Row = Some [dojiRow ''DOJI HN'' ''8500000'' ''8700000'', dojiRow ''SJC HCM'' ''8400000'' ''8600000'']\<rparr>"

definition jewelryTable :: doji_table where
  "jewelryTable = \<lparr>Row = Some [dojiRow ''Nhan 18k'' ''5000000'' ''5200000'', dojiRow ''Nhan 9999'' ''7400000'' ''7500000'']\<rparr>"

definition otherTable :: doji_table where
  "otherTable = \<lparr>Row = Some [dojiRow ''DOJI DN 24k'' ''1000'' ''2000'']\<rparr>"

text \<open>
  Tables with rows that pass the filters and rows that do not, and a table whose row
  has a buy price with a fraction of five digits.
\<close>

definition brandTable :: doji_table where
  "brandTable =
     \<lparr>Row = Some [dojiRow ''DOJI HN'' ''8500000'' ''8700000'',
                  dojiRow ''SJC HCM'' ''8400000'' ''8600000'',
                  dojiRow ''DOJI HCM'' ''8450000'' ''8650000'']\<rparr>"

definition purityTable :: doji_table where
  "purityTable =
     \<lparr>Row = Some [dojiRow ''Nhan 18k'' ''5000000'' ''5200000'',
                  dojiRow ''Nhan 24k'' ''7300000'' ''7400000'',
                  dojiRow ''Nhan 9999'' ''7400000'' ''7500000'']\<rparr>"

definition longFractionTable :: doji_table where
  "longFractionTable = \<lparr>Row = Some [dojiRow ''DOJI HN'' ''1234.56789'' ''8700000'']\<rparr>"

text \<open>
  A cycle in which everything works, and the same cycle with one source down, with a
  world payload without price, and ten minutes later.
\<close>

definition allFineEnv :: "nat env" where
  "allFineEnv =
     \<lparr>goldApi = Inr (Some \<lparr>price = Some 2345\<rparr>),
      dojiApi = Inr (Inr (dojiPayload [sjcTable] [jewelryTable])),
      btmcApi = Inr (btmcPayload [mixedSlotsItem]),
      localeTime = ''11/3/2026, 7:00:00 AM'',
      chatId = Some ''42'',
      botSend = (\<lambda>text. None)\<rparr>"

definition worldDownEnv :: "nat env" where
  "worldDownEnv = allFineEnv\<lparr>goldApi := Inl (AxiosError (Some (500, ''Internal Server Error'')))\<rparr>"

definition dojiDownEnv :: "nat env" where
  "dojiDownEnv = allFineEnv\<lparr>dojiApi := Inr (Inl (PlainError ''Unclosed root tag''))\<rparr>"

definition btmcDownEnv :: "nat env" where
  "btmcDownEnv = allFineEnv\<lparr>btmcApi := Inl (AxiosError None)\<rparr>"

definition noPriceEnv :: "nat env" where
  "noPriceEnv = allFineEnv\<lparr>goldApi := Inr (Some \<lparr>price = None\<rparr>)\<rparr>"

definition laterEnv :: "nat env" where
  "laterEnv = allFineEnv\<lparr>localeTime := ''11/3/2026, 7:10:00 AM''\<rparr>"

definition dojiText :: string where
  "dojiText =
     ''- DOJI HN:\<newline>  Mua: 8,500,000 VND\<newline>  B'' @ aAcute @ ''n: 8,700,000 VND\<newline>''
     @ ''- Nhan 9999:\<newline>  Mua: 7,400,000 VND\<newline>  B'' @ aAcute @ ''n: 7,500,000 VND''"

definition btmcText :: string where
  "btmcText = ''- SJC:\<newline>  Mua: 1,234,567 VND\<newline>  B'' @ aAcute @ ''n: 1,250,000 VND''"

lemmas doji_defs =
  fetchDojiPrice_def dojiBlocks_def firstTableRows_def isBrandRow_def isPurityRow_def
  nameIncludes_def rowAttr_def formatDojiRow_def priceBlock_def aAcute_def

lemmas btmc_defs =
  fetchBaoTinPrice_def btmcBlocks_def formatBtmcItem_def keepItem_def nameHasSJC_def itemName_def
  itemKarat_def itemPurity_def itemBuyPrice_def itemSellPrice_def orElse_def truthy_def
  priceBlock_def aAcute_def aGrave_def

lemmas env_defs = allFineEnv_def worldDownEnv_def dojiDownEnv_def btmcDownEnv_def noPriceEnv_def
  laterEnv_def

section \<open>Errors of the callbacks and of the fetchers\<close>

lemma formatNumber_error: "formatNumber n2s v = Inl e \<Longrightarrow> e = TypeError \<and> v = JUndefined"
  by (auto simp: formatNumber_def toString_def split: jsvalue.splits sum.splits)

lemma formatNumber_undefined: "formatNumber n2s JUndefined = Inl TypeError"
  by (simp add: formatNumber_def toString_def)

lemma filterE_error: "filterE p xs = Inl e \<Longrightarrow> \<exists>x \<in> set xs. p x = Inl e"
  by (induction xs) (auto split: sum.splits)

lemma mapE_error: "mapE f xs = Inl e \<Longrightarrow> \<exists>x \<in> set xs. f x = Inl e"
  by (induction xs) (auto split: sum.splits)

lemma mapE_fails: "x \<in> set xs \<Longrightarrow> f x = Inl e \<Longrightarrow> \<exists>e'. mapE f xs = Inl e'"
  by (induction xs) (auto split: sum.splits)

lemma fetchWorld_error:
  "fetchWorldGoldPrice n2s api = Inl err \<Longrightarrow> \<exists>m. err = GoldPriceError m ''World Gold''"
  by (auto simp: fetchWorldGoldPrice_def split: sum.splits option.splits js_error.splits)

lemma nameIncludes_error: "nameIncludes m row = Inl e \<Longrightarrow> e = TypeError"
  by (auto simp: nameIncludes_def rowAttr_def split: option.splits sum.splits)

lemma isBrandRow_error: "isBrandRow row = Inl e \<Longrightarrow> e = TypeError"
  by (auto simp: isBrandRow_def dest: nameIncludes_error)

lemma isPurityRow_error: "isPurityRow row = Inl e \<Longrightarrow> e = TypeError"
  by (auto simp: isPurityRow_def dest: nameIncludes_error split: sum.splits bool.splits)

lemma formatDojiRow_error: "formatDojiRow n2s row = Inl e \<Longrightarrow> e = TypeError"
  by (auto simp: formatDojiRow_def rowAttr_def dest: formatNumber_error
      split: option.splits sum.splits)

lemma firstTableRows_error: "firstTableRows ts = Inl e \<Longrightarrow> e = TypeError"
  by (auto simp: firstTableRows_def split: option.splits list.splits)

lemma dojiBlocks_error: "dojiBlocks n2s data = Inl e \<Longrightarrow> e = TypeError"
  unfolding dojiBlocks_def Let_def
  by (auto split: option.splits sum.splits dest!: filterE_error mapE_error
      dest: isBrandRow_error isPurityRow_error formatDojiRow_error firstTableRows_error)

lemma fetchDoji_parsed:
  "fetchDojiPrice n2s (Inr (Inr data)) =
     (case dojiBlocks n2s data of
        Inr text \<Rightarrow> Inr text
      | Inl e \<Rightarrow> Inl (GoldPriceError ''Failed to fetch DOJI prices'' ''DOJI''))"
  by (auto simp: fetchDojiPrice_def split: sum.splits js_error.splits dest: dojiBlocks_error)

lemma fetchDoji_error:
  "fetchDojiPrice n2s api = Inl err \<Longrightarrow> \<exists>m. err = GoldPriceError m ''DOJI''"
  by (auto simp: fetchDojiPrice_def split: sum.splits js_error.splits)

lemma formatBtmcItem_error: "formatBtmcItem n2s item = Inl e \<Longrightarrow> e = TypeError"
  by (auto simp: formatBtmcItem_def Let_def dest: formatNumber_error split: sum.splits)

lemma btmcBlocks_error: "btmcBlocks n2s data = Inl e \<Longrightarrow> e = TypeError"
  unfolding btmcBlocks_def Let_def
  by (auto split: option.splits sum.splits dest!: mapE_error dest: formatBtmcItem_error)

lemma fetchBaoTin_resolved:
  "fetchBaoTinPrice n2s (Inr data) =
     (case btmcBlocks n2s data of
        Inr text \<Rightarrow> Inr text
      | Inl e \<Rightarrow> Inl (GoldPriceError ''Failed to fetch BTMC prices'' ''BTMC''))"
  by (auto simp: fetchBaoTinPrice_def split: sum.splits js_error.splits dest: btmcBlocks_error)

lemma fetchBaoTin_error:
  "fetchBaoTinPrice n2s api = Inl err \<Longrightarrow> \<exists>m. err = GoldPriceError m ''BTMC''"
  by (auto simp: fetchBaoTinPrice_def split: sum.splits js_error.splits)

lemma orElse_first_truthy:
  "find truthy [a, b, c, d, e] = Some v \<Longrightarrow> orElse (orElse (orElse (orElse a b) c) d) e = v"
  by (simp add: orElse_def split: if_splits)

section \<open>The pattern on plain prices\<close>

lemma specDigit_isDigit: "specDigit = isDigit"
  by (rule ext) (simp add: specDigit_def isDigit_def)

lemma isDigit_isWordChar: "isDigit c \<Longrightarrow> isWordChar c"
  by (auto simp: isDigit_def isWordChar_def)

lemma groupsAhead_head: "groupsAhead (x # xs) \<Longrightarrow> isDigit x"
  by (erule groupsAhead.elims) auto

lemma replaceFrom_Nil: "replaceFrom prev [] = []"
  by (simp add: matchesAt_def)

lemma notDigitAhead_append:
  "notDigitAhead rest \<Longrightarrow> list_all isDigit ds \<Longrightarrow> notDigitAhead (ds @ rest) \<longleftrightarrow> ds = []"
  by (cases ds) auto

lemma groupsAhead_run:
  assumes "list_all isDigit ds" and "notDigitAhead rest"
  shows "groupsAhead (ds @ rest) \<longleftrightarrow> ds \<noteq> [] \<and> length ds mod 3 = 0"
  using assms
proof (induction "length ds" arbitrary: ds rule: less_induct)
  case less
  have no: "\<not> groupsAhead rest"
    using less.prems(2) groupsAhead_head by (cases rest) auto
  have hd: "rest \<noteq> [] \<Longrightarrow> \<not> isDigit (hd rest)"
    using less.prems(2) by (cases rest) auto
  show ?case
  proof (cases ds)
    case Nil
    with no show ?thesis by simp
  next
    case a: (Cons a as)
    show ?thesis
    proof (cases as)
      case Nil
      with a hd show ?thesis by (cases rest; cases "tl rest") auto
    next
      case b: (Cons b bs)
      show ?thesis
      proof (cases bs)
        case Nil
        with a b hd show ?thesis by (cases rest) auto
      next
        case c: (Cons c cs)
        from a b c less.prems have digits: "isDigit a" "isDigit b" "isDigit c" "list_all isDigit cs"
          by simp_all
        from a b c have "length cs < length ds" by simp
        from less.hyps [OF this digits(4) less.prems(2)]
        have ih: "groupsAhead (cs @ rest) \<longleftrightarrow> cs \<noteq> [] \<and> length cs mod 3 = 0" .
        from a b c digits ih notDigitAhead_append [OF less.prems(2) digits(4)]
        show ?thesis by auto
      qed
    qed
  qed
qed

lemma replaceFrom_run:
  assumes "list_all isDigit ds" and "notDigitAhead rest" and "isWordChar p"
  shows "replaceFrom (Some p) (ds @ rest)
           = (if ds \<noteq> [] \<and> length ds mod 3 = 0 then '','' else []) @ specGroupDigits ds
             @ replaceFrom (Some (last (p # ds))) rest"
  using assms
proof (induction ds arbitrary: p)
  case Nil
  then show ?case by simp
next
  case (Cons d ds)
  from Cons.prems have d: "isDigit d" and ds: "list_all isDigit ds" by simp_all
  have m: "matchesAt (Some p) ((d # ds) @ rest) \<longleftrightarrow> length (d # ds) mod 3 = 0"
    using groupsAhead_run [of "d # ds" rest] Cons.prems d
    by (simp add: matchesAt_def wordBefore_def isDigit_isWordChar)
  from Cons.IH [OF ds Cons.prems(2) isDigit_isWordChar [OF d]] m
  show ?case by simp
qed

lemma replaceFrom_start:
  assumes "list_all isDigit (d # ds)" and "notDigitAhead rest" and "\<not> wordBefore prev"
  shows "replaceFrom prev ((d # ds) @ rest)
           = specGroupDigits (d # ds) @ replaceFrom (Some (last (d # ds))) rest"
proof -
  from assms(1) have d: "isDigit d" and ds: "list_all isDigit ds" by simp_all
  have "\<not> matchesAt prev ((d # ds) @ rest)"
    using assms(3) d by (simp add: matchesAt_def isDigit_isWordChar)
  with replaceFrom_run [OF ds assms(2) isDigit_isWordChar [OF d]]
  show ?thesis by simp
qed

lemma specGroupDigits_short: "length ds \<le> 3 \<Longrightarrow> specGroupDigits ds = ds"
  by (induction ds) auto

lemma replaceFrom_fraction:
  assumes "list_all isDigit fs" and "length fs \<le> 3"
  shows "replaceFrom (Some p) (CHR ''.'' # fs) = CHR ''.'' # fs"
proof -
  have dot: "\<not> isDigit CHR ''.''" "\<not> isWordChar CHR ''.''"
    by (simp_all add: isDigit_def isWordChar_def)
  have first: "\<not> matchesAt (Some p) (CHR ''.'' # fs)"
    using groupsAhead_head dot by (auto simp: matchesAt_def)
  have "replaceFrom (Some CHR ''.'') fs = fs"
  proof (cases fs)
    case Nil
    then show ?thesis by (simp add: matchesAt_def)
  next
    case (Cons d ds)
    from replaceFrom_start [of d ds "[]" "Some CHR ''.''"] assms dot Cons
    have "replaceFrom (Some CHR ''.'') (d # ds) = specGroupDigits (d # ds) @ []"
      by (simp only: replaceFrom_Nil append_Nil2 wordBefore_def option.case notDigitAhead.simps
          simp_thms)
    with assms(2) Cons show ?thesis by (simp only: specGroupDigits_short append_Nil2)
  qed
  with first show ?thesis by simp
qed

lemma replaceFrom_plain:
  assumes "plainPrice s"
  shows "replaceFrom None s = specThousands s"
proof -
  let ?ip = "takeWhile isDigit s" and ?rest = "dropWhile isDigit s"
  from assms have ip: "?ip \<noteq> []"
    and rest: "?rest = [] \<or> (\<exists>fs. ?rest = CHR ''.'' # fs \<and> list_all isDigit fs \<and> length fs \<le> 3)"
    by (auto simp: plainPrice_def specDigit_isDigit split: list.splits)
  from ip obtain d ds where ds: "?ip = d # ds" by (cases ?ip) auto
  have "list_all isDigit ?ip"
    by (simp add: list_all_iff) (metis set_takeWhileD)
  then have digits: "list_all isDigit (d # ds)" by (simp only: ds)
  from rest have nda: "notDigitAhead ?rest"
  proof
    assume "?rest = []"
    then show ?thesis by (simp only: notDigitAhead.simps)
  next
    assume "\<exists>fs. ?rest = CHR ''.'' # fs \<and> list_all isDigit fs \<and> length fs \<le> 3"
    then obtain fs where "?rest = CHR ''.'' # fs" by blast
    then show ?thesis by (simp add: isDigit_def)
  qed
  have s: "s = (d # ds) @ ?rest"
    by (metis ds takeWhile_dropWhile_id)
  have start: "replaceFrom None ((d # ds) @ ?rest)
          = specGroupDigits (d # ds) @ replaceFrom (Some (last (d # ds))) ?rest"
    by (rule replaceFrom_start [OF digits nda]) (simp add: wordBefore_def)
  from rest have tail: "replaceFrom (Some (last (d # ds))) ?rest = ?rest"
  proof
    assume "?rest = []"
    then show ?thesis by (simp only: replaceFrom_Nil)
  next
    assume "\<exists>fs. ?rest = CHR ''.'' # fs \<and> list_all isDigit fs \<and> length fs \<le> 3"
    then obtain fs where fs: "?rest = CHR ''.'' # fs" "list_all isDigit fs" "length fs \<le> 3"
      by blast
    show ?thesis unfolding fs(1) by (rule replaceFrom_fraction [OF fs(2,3)])
  qed
  have "replaceFrom None s = replaceFrom None ((d # ds) @ ?rest)"
    using s by simp
  also have "\<dots> = specGroupDigits (d # ds) @ ?rest"
    by (simp only: start tail)
  also have "\<dots> = specThousands s"
    by (simp only: specThousands_def specDigit_isDigit ds)
  finally show ?thesis .
qed

section \<open>What the callbacks return\<close>

lemma isBrandRow_result: "isBrandRow row = Inr b \<Longrightarrow> b = specBrandRow row"
  by (auto simp: isBrandRow_def nameIncludes_def rowAttr_def specBrandRow_def
      split: option.splits sum.splits)

lemma isPurityRow_result: "isPurityRow row = Inr b \<Longrightarrow> b = specPurityRow row"
  by (auto simp: isPurityRow_def nameIncludes_def rowAttr_def specPurityRow_def
      split: option.splits sum.splits bool.splits)

lemma formatDojiRow_result:
  assumes "specBrandRow row \<or> specPurityRow row" and "formatDojiRow n2s row = Inr block"
  shows "specBlockOf row block"
  unfolding specBlockOf_def
proof
  assume plain: "specPlainPrices row"
  then obtain a buy sell where a: "attrs row = Some a" "Buy a = Some buy" "Sell a = Some sell"
    and prices: "plainPrice buy" "plainPrice sell"
    by (auto simp: specPlainPrices_def split: option.splits)
  from assms(1) a(1) obtain name where name: "Name a = Some name"
    by (auto simp: specBrandRow_def specPurityRow_def split: option.splits)
  from assms(2) a name
  have "block = priceBlock name (replaceFrom None buy) (replaceFrom None sell)"
    by (simp add: formatDojiRow_def rowAttr_def formatNumber_def toString_def ofString_def)
  with a name prices show "specRowBlock row = Some block"
    by (simp add: specRowBlock_def priceBlock_def replaceFrom_plain)
qed

lemma filterE_spec:
  assumes "filterE p xs = Inr ys" and "\<And>x b. p x = Inr b \<Longrightarrow> b = q x"
  shows "ys = filter q xs"
  using assms by (induction xs arbitrary: ys) (auto split: sum.splits if_splits)

lemma mapE_spec:
  assumes "mapE f xs = Inr ys" and "\<And>x y. x \<in> set xs \<Longrightarrow> f x = Inr y \<Longrightarrow> R x y"
  shows "list_all2 R xs ys"
  using assms by (induction xs arbitrary: ys) (auto split: sum.splits)

lemma joinLines_specJoin: "joinLines blocks = specJoin blocks"
  by (induction blocks rule: joinLines.induct) (simp_all add: specJoin_def)

lemma firstTableRows_result:
  "firstTableRows tables = Inr rows \<Longrightarrow> \<exists>t ts. tables = Some (t # ts) \<and> Row t = Some rows"
  by (auto simp: firstTableRows_def split: option.splits list.splits)

lemma orElse_all_falsy:
  "\<not> truthy a \<Longrightarrow> \<not> truthy b \<Longrightarrow> \<not> truthy c \<Longrightarrow> \<not> truthy d \<Longrightarrow>
   orElse (orElse (orElse (orElse a b) c) d) e = e"
  by (simp add: orElse_def)

lemma formatBtmcItem_no_buy:
  "itemBuyPrice item = None \<Longrightarrow> formatBtmcItem n2s item = Inl TypeError"
  by (simp add: formatBtmcItem_def Let_def ofString_def formatNumber_undefined)

lemma formatBtmcItem_no_sell:
  assumes "itemSellPrice item = None"
  shows "formatBtmcItem n2s item = Inl TypeError"
proof (cases "formatNumber n2s (ofString (itemBuyPrice item))")
  case (Inl e)
  then have "e = TypeError" using formatNumber_error by blast
  with Inl show ?thesis by (simp add: formatBtmcItem_def Let_def)
next
  case (Inr buyText)
  with assms show ?thesis
    by (simp add: formatBtmcItem_def Let_def ofString_def formatNumber_undefined)
qed

section \<open>The cycle, case by case\<close>

lemma sendMessage_cases:
  "sendMessage e m = ([], Inl (PlainError ''TELEGRAM_CHAT_ID is not defined'')) \<or>
   sendMessage e m = ([Delivered m], Inr ()) \<or>
   (\<exists>reason. sendMessage e m = ([], Inl (PlainError reason)))"
  by (auto simp: sendMessage_def split: option.splits)

lemma sendMessage_no_requests [simp]: "requested (fst (sendMessage e m)) = []"
  by (auto simp: sendMessage_def requested_def split: option.splits)

lemma sendMessage_no_notices [simp]: "notices (fst (sendMessage e m)) = []"
  by (auto simp: sendMessage_def notices_def split: option.splits)

lemma sendMessage_delivered:
  "delivered (fst (sendMessage e m))
     = (if chatId e \<noteq> None \<and> chatId e \<noteq> Some [] \<and> botSend e m = None then [m] else [])"
  by (auto simp: sendMessage_def delivered_def split: option.splits)

lemma requested_simps [simp]:
  "requested [] = []"
  "requested (Request a # evs) = a # requested evs"
  "requested (SendMessage k t # evs) = requested evs"
  "requested (Delivered t # evs) = requested evs"
  "requested (evs @ evs') = requested evs @ requested evs'"
  by (simp_all add: requested_def)

lemma notices_simps [simp]:
  "notices [] = []"
  "notices (Request a # evs) = notices evs"
  "notices (SendMessage k t # evs) = (k, t) # notices evs"
  "notices (Delivered t # evs) = notices evs"
  "notices (evs @ evs') = notices evs @ notices evs'"
  by (simp_all add: notices_def)

lemma delivered_simps [simp]:
  "delivered [] = []"
  "delivered (Request a # evs) = delivered evs"
  "delivered (SendMessage k t # evs) = delivered evs"
  "delivered (Delivered t # evs) = t # delivered evs"
  "delivered (evs @ evs') = delivered evs @ delivered evs'"
  by (simp_all add: delivered_def)

lemma formatNumber_number: "formatNumber n2s (ofNumber (Some w)) = Inr (replaceFrom None (n2s w))"
  by (simp add: formatNumber_def toString_def ofNumber_def)

lemma formatNumber_no_number: "formatNumber n2s (ofNumber None) = Inl TypeError"
  by (simp add: formatNumber_def toString_def ofNumber_def)

lemma cycle_world_fails:
  assumes "fetchWorldGoldPrice n2s (goldApi e) = Inl (GoldPriceError m s)"
  shows "fst (fetchAndNotifyPrices n2s e)
           = [Request GoldApi, SendMessage Warning (warningText s m)]
               @ fst (sendMessage e (warningText s m))"
  using assms by (simp add: fetchAndNotifyPrices_def tryBlock_def Let_def split: prod.splits)

lemma cycle_no_price:
  assumes "fetchWorldGoldPrice n2s (goldApi e) = Inr None"
  shows "fetchAndNotifyPrices n2s e = ([Request GoldApi], Inr ())"
  using assms by (simp add: fetchAndNotifyPrices_def tryBlock_def formatNumber_no_number)

lemma cycle_doji_fails:
  assumes "fetchWorldGoldPrice n2s (goldApi e) = Inr (Some w)"
    and "fetchDojiPrice n2s (dojiApi e) = Inl (GoldPriceError m s)"
  shows "fst (fetchAndNotifyPrices n2s e)
           = [Request GoldApi, Request DojiApi, SendMessage Warning (warningText s m)]
               @ fst (sendMessage e (warningText s m))"
  using assms
  by (simp add: fetchAndNotifyPrices_def tryBlock_def Let_def formatNumber_number
      split: prod.splits)

lemma cycle_btmc_fails:
  assumes "fetchWorldGoldPrice n2s (goldApi e) = Inr (Some w)"
    and "fetchDojiPrice n2s (dojiApi e) = Inr d"
    and "fetchBaoTinPrice n2s (btmcApi e) = Inl (GoldPriceError m s)"
  shows "fst (fetchAndNotifyPrices n2s e)
           = [Request GoldApi, Request DojiApi, Request BtmcApi,
              SendMessage Warning (warningText s m)]
               @ fst (sendMessage e (warningText s m))"
  using assms
  by (simp add: fetchAndNotifyPrices_def tryBlock_def Let_def formatNumber_number
      split: prod.splits)

lemma cycle_all_fetched:
  assumes "fetchWorldGoldPrice n2s (goldApi e) = Inr (Some w)"
    and "fetchDojiPrice n2s (dojiApi e) = Inr d"
    and "fetchBaoTinPrice n2s (btmcApi e) = Inr b"
  shows "fetchAndNotifyPrices n2s e
           = ([Request GoldApi, Request DojiApi, Request BtmcApi,
               SendMessage Report (reportText (localeTime e) (replaceFrom None (n2s w)) d b)]
                @ fst (sendMessage e (reportText (localeTime e) (replaceFrom None (n2s w)) d b)),
              Inr ())"
proof -
  let ?m = "reportText (localeTime e) (replaceFrom None (n2s w)) d b"
  have t: "tryBlock n2s e
      = ([Request GoldApi, Request DojiApi, Request BtmcApi, SendMessage Report ?m]
           @ fst (sendMessage e ?m), snd (sendMessage e ?m))"
    using assms by (simp add: tryBlock_def Let_def formatNumber_number split: prod.splits)
  from sendMessage_cases [of e ?m] show ?thesis
    unfolding fetchAndNotifyPrices_def t by auto
qed

lemma fetch_cases:
  obtains
    (world_fails) m where "fetchWorldGoldPrice n2s (goldApi e) = Inl (GoldPriceError m ''World Gold'')"
  | (no_price) "fetchWorldGoldPrice n2s (goldApi e) = Inr None"
  | (doji_fails) w m where "fetchWorldGoldPrice n2s (goldApi e) = Inr (Some w)"
      and "fetchDojiPrice n2s (dojiApi e) = Inl (GoldPriceError m ''DOJI'')"
  | (btmc_fails) w d m where "fetchWorldGoldPrice n2s (goldApi e) = Inr (Some w)"
      and "fetchDojiPrice n2s (dojiApi e) = Inr d"
      and "fetchBaoTinPrice n2s (btmcApi e) = Inl (GoldPriceError m ''BTMC'')"
  | (all_fetched) w d b where "fetchWorldGoldPrice n2s (goldApi e) = Inr (Some w)"
      and "fetchDojiPrice n2s (dojiApi e) = Inr d"
      and "fetchBaoTinPrice n2s (btmcApi e) = Inr b"
proof (cases "fetchWorldGoldPrice n2s (goldApi e)")
  case (Inl err)
  with fetchWorld_error [OF Inl] world_fails show ?thesis by blast
next
  case (Inr p)
  show ?thesis
  proof (cases p)
    case None
    with Inr no_price show ?thesis by simp
  next
    case (Some w)
    note w = Inr [unfolded Some]
    show ?thesis
    proof (cases "fetchDojiPrice n2s (dojiApi e)")
      case (Inl err)
      with fetchDoji_error [OF Inl] doji_fails [OF w] show ?thesis by blast
    next
      case d: (Inr d)
      show ?thesis
      proof (cases "fetchBaoTinPrice n2s (btmcApi e)")
        case (Inl err)
        with fetchBaoTin_error [OF Inl] btmc_fails [OF w d] show ?thesis by blast
      next
        case (Inr b)
        with all_fetched [OF w d] show ?thesis by blast
      qed
    qed
  qed
qed

lemma cycle_requested:
  "requested (fst (fetchAndNotifyPrices n2s e)) =
     (case fetchWorldGoldPrice n2s (goldApi e) of
        Inl err \<Rightarrow> [GoldApi]
      | Inr None \<Rightarrow> [GoldApi]
      | Inr (Some w) \<Rightarrow>
          (case fetchDojiPrice n2s (dojiApi e) of
             Inl err \<Rightarrow> [GoldApi, DojiApi]
           | Inr d \<Rightarrow> [GoldApi, DojiApi, BtmcApi]))"
  by (cases rule: fetch_cases [of n2s e])
    (simp_all add: cycle_world_fails cycle_no_price cycle_doji_fails cycle_btmc_fails
      cycle_all_fetched)

lemma cycle_notices:
  "notices (fst (fetchAndNotifyPrices n2s e)) =
     (case fetchWorldGoldPrice n2s (goldApi e) of
        Inl err \<Rightarrow> (case err of GoldPriceError m s \<Rightarrow> [(Warning, warningText s m)] | _ \<Rightarrow> [])
      | Inr None \<Rightarrow> []
      | Inr (Some w) \<Rightarrow>
          (case fetchDojiPrice n2s (dojiApi e) of
             Inl err \<Rightarrow> (case err of GoldPriceError m s \<Rightarrow> [(Warning, warningText s m)] | _ \<Rightarrow> [])
           | Inr d \<Rightarrow>
               (case fetchBaoTinPrice n2s (btmcApi e) of
                  Inl err \<Rightarrow>
                    (case err of GoldPriceError m s \<Rightarrow> [(Warning, warningText s m)] | _ \<Rightarrow> [])
                | Inr b \<Rightarrow> [(Report, reportText (localeTime e) (replaceFrom None (n2s w)) d b)])))"
  by (cases rule: fetch_cases [of n2s e])
    (simp_all add: cycle_world_fails cycle_no_price cycle_doji_fails cycle_btmc_fails
      cycle_all_fetched)

lemma cycle_delivered:
  "delivered (fst (fetchAndNotifyPrices n2s e))
     = filter (\<lambda>text. chatId e \<noteq> None \<and> chatId e \<noteq> Some [] \<and> botSend e text = None)
         (map snd (notices (fst (fetchAndNotifyPrices n2s e))))"
  by (cases rule: fetch_cases [of n2s e])
    (simp_all add: cycle_world_fails cycle_no_price cycle_doji_fails cycle_btmc_fails
      cycle_all_fetched sendMessage_delivered)

lemma reportText_around_time:
  "\<exists>pre post. \<forall>now. reportText now w d b = pre @ now @ post"
proof (intro exI allI)
  fix now
  show "reportText now w d b
          = (''\<newline>'' @ clockSign @ '' Gold Prices Update ('') @ now
            @ ('')\<newline>'' @ ''\<newline>'' @ globeSign @ '' World Gold Price: $'' @ w @ ''/oz\<newline>''
               @ ''\<newline>'' @ shopSign @ '' Local Gold Shops:\<newline>''
               @ ''\<newline>DOJI:\<newline>'' @ d @ ''\<newline>''
               @ ''\<newline>'' @ baoTinMinhChau @ '':\<newline>'' @ b @ ''\<newline>      '')"
    by (simp add: reportText_def)
qed

section \<open>The examples, evaluated\<close>

lemma showNat_500: "showNat 500 = ''500''"
  by (simp add: showNat.simps [of 500] showNat.simps [of 50] showNat.simps [of 5] digitChar_def)

lemma showNat_2345: "showNat 2345 = ''2345''"
  by (simp add: showNat.simps [of 2345] showNat.simps [of 234] showNat.simps [of 23]
      showNat.simps [of 2] digitChar_def)

lemma world_fine: "fetchWorldGoldPrice showNat (Inr (Some \<lparr>price = Some 2345\<rparr>)) = Inr (Some 2345)"
  by (simp add: fetchWorldGoldPrice_def)

lemma world_down:
  "fetchWorldGoldPrice showNat (Inl (AxiosError (Some (500, ''Internal Server Error''))))
     = Inl (GoldPriceError ''API Error: 500 - Internal Server Error'' ''World Gold'')"
  by (simp add: fetchWorldGoldPrice_def apiErrorMessage_def showNat_500)

lemma doji_fine:
  "fetchDojiPrice showNat (Inr (Inr (dojiPayload [sjcTable] [jewelryTable]))) = Inr dojiText"
  by (simp add: doji_defs dojiPayload_def sjcTable_def jewelryTable_def dojiRow_def format_defs
      dojiText_def)

lemma doji_down:
  "fetchDojiPrice showNat (Inr (Inl (PlainError ''Unclosed root tag'')))
     = Inl (GoldPriceError ''Failed to fetch DOJI prices'' ''DOJI'')"
  by (simp add: fetchDojiPrice_def)

lemma btmc_fine: "fetchBaoTinPrice showNat (Inr (btmcPayload [mixedSlotsItem])) = Inr btmcText"
  by (simp add: btmc_defs btmcPayload_def mixedSlotsItem_def format_defs btmcText_def)

lemma btmc_down:
  "fetchBaoTinPrice showNat (Inl (AxiosError None))
     = Inl (GoldPriceError ''API Error: undefined - undefined'' ''BTMC'')"
  by (simp add: fetchBaoTinPrice_def apiErrorMessage_def)

lemma group_2345: "replaceFrom None (showNat 2345) = ''2,345''"
  by (simp add: showNat_2345 format_defs)

lemma report_example:
  "fetchAndNotifyPrices showNat allFineEnv
     = ([Request GoldApi, Request DojiApi, Request BtmcApi,
         SendMessage Report (reportText ''11/3/2026, 7:00:00 AM'' ''2,345'' dojiText btmcText),
         Delivered (reportText ''11/3/2026, 7:00:00 AM'' ''2,345'' dojiText btmcText)], Inr ())"
proof -
  have w: "fetchWorldGoldPrice showNat (goldApi allFineEnv) = Inr (Some 2345)"
    by (simp add: env_defs world_fine)
  have d: "fetchDojiPrice showNat (dojiApi allFineEnv) = Inr dojiText"
    by (simp add: env_defs doji_fine)
  have b: "fetchBaoTinPrice showNat (btmcApi allFineEnv) = Inr btmcText"
    by (simp add: env_defs btmc_fine)
  show ?thesis
    unfolding cycle_all_fetched [OF w d b] group_2345
    by (simp add: allFineEnv_def sendMessage_def)
qed

section \<open>The cycle\<close>

text \<open>
  C1: a failed fetch and the other two sources. The three fetches run one after the
  other inside one \<open>try\<close> block, so the first fetch that fails ends the fetching: the
  sources before it have been fetched, the sources after it are not fetched, and the
  only message of the cycle is the warning that names the failed source. A failed
  world fetch leaves DOJI and BTMC unfetched, a failed DOJI fetch leaves BTMC
  unfetched.
\<close>

theorem first_failure_ends_fetching:
  "(fetchWorldGoldPrice n2s (goldApi e) = Inl err \<longrightarrow>
      requested (fst (fetchAndNotifyPrices n2s e)) = [GoldApi] \<and>
      (\<exists>m. notices (fst (fetchAndNotifyPrices n2s e)) = [(Warning, warningText ''World Gold'' m)])) \<and>
   (fetchWorldGoldPrice n2s (goldApi e) = Inr (Some w) \<and>
    fetchDojiPrice n2s (dojiApi e) = Inl err \<longrightarrow>
      requested (fst (fetchAndNotifyPrices n2s e)) = [GoldApi, DojiApi] \<and>
      (\<exists>m. notices (fst (fetchAndNotifyPrices n2s e)) = [(Warning, warningText ''DOJI'' m)])) \<and>
   (fetchWorldGoldPrice n2s (goldApi e) = Inr (Some w) \<and>
    fetchDojiPrice n2s (dojiApi e) = Inr d \<and>
    fetchBaoTinPrice n2s (btmcApi e) = Inl err \<longrightarrow>
      requested (fst (fetchAndNotifyPrices n2s e)) = [GoldApi, DojiApi, BtmcApi] \<and>
      (\<exists>m. notices (fst (fetchAndNotifyPrices n2s e)) = [(Warning, warningText ''BTMC'' m)]))"
proof (intro conjI impI)
  assume a: "fetchWorldGoldPrice n2s (goldApi e) = Inl err"
  from fetchWorld_error [OF a] obtain m where "err = GoldPriceError m ''World Gold''" ..
  with a show "requested (fst (fetchAndNotifyPrices n2s e)) = [GoldApi]"
    and "\<exists>m. notices (fst (fetchAndNotifyPrices n2s e)) = [(Warning, warningText ''World Gold'' m)]"
    by (auto simp: cycle_requested cycle_notices)
next
  assume "fetchWorldGoldPrice n2s (goldApi e) = Inr (Some w) \<and>
    fetchDojiPrice n2s (dojiApi e) = Inl err"
  then have w: "fetchWorldGoldPrice n2s (goldApi e) = Inr (Some w)"
    and d: "fetchDojiPrice n2s (dojiApi e) = Inl err"
    by simp_all
  from fetchDoji_error [OF d] obtain m where "err = GoldPriceError m ''DOJI''" ..
  with w d show "requested (fst (fetchAndNotifyPrices n2s e)) = [GoldApi, DojiApi]"
    and "\<exists>m. notices (fst (fetchAndNotifyPrices n2s e)) = [(Warning, warningText ''DOJI'' m)]"
    by (auto simp: cycle_requested cycle_notices)
next
  assume "fetchWorldGoldPrice n2s (goldApi e) = Inr (Some w) \<and>
    fetchDojiPrice n2s (dojiApi e) = Inr d \<and>
    fetchBaoTinPrice n2s (btmcApi e) = Inl err"
  then have w: "fetchWorldGoldPrice n2s (goldApi e) = Inr (Some w)"
    and d: "fetchDojiPrice n2s (dojiApi e) = Inr d"
    and b: "fetchBaoTinPrice n2s (btmcApi e) = Inl err"
    by simp_all
  from fetchBaoTin_error [OF b] obtain m where "err = GoldPriceError m ''BTMC''" ..
  with w d b show "requested (fst (fetchAndNotifyPrices n2s e)) = [GoldApi, DojiApi, BtmcApi]"
    and "\<exists>m. notices (fst (fetchAndNotifyPrices n2s e)) = [(Warning, warningText ''BTMC'' m)]"
    by (auto simp: cycle_requested cycle_notices)
qed

theorem first_failure_ends_fetching_witness:
  "fetchWorldGoldPrice showNat (goldApi worldDownEnv)
     = Inl (GoldPriceError ''API Error: 500 - Internal Server Error'' ''World Gold'') \<and>
   requested (fst (fetchAndNotifyPrices showNat worldDownEnv)) = [GoldApi] \<and>
   fetchWorldGoldPrice showNat (goldApi dojiDownEnv) = Inr (Some 2345) \<and>
   fetchDojiPrice showNat (dojiApi dojiDownEnv)
     = Inl (GoldPriceError ''Failed to fetch DOJI prices'' ''DOJI'') \<and>
   requested (fst (fetchAndNotifyPrices showNat dojiDownEnv)) = [GoldApi, DojiApi] \<and>
   fetchWorldGoldPrice showNat (goldApi btmcDownEnv) = Inr (Some 2345) \<and>
   fetchDojiPrice showNat (dojiApi btmcDownEnv) = Inr dojiText \<and>
   fetchBaoTinPrice showNat (btmcApi btmcDownEnv)
     = Inl (GoldPriceError ''API Error: undefined - undefined'' ''BTMC'') \<and>
   requested (fst (fetchAndNotifyPrices showNat btmcDownEnv)) = [GoldApi, DojiApi, BtmcApi]"
proof -
  have w1: "fetchWorldGoldPrice showNat (goldApi worldDownEnv)
     = Inl (GoldPriceError ''API Error: 500 - Internal Server Error'' ''World Gold'')"
    by (simp add: env_defs world_down)
  have w2: "fetchWorldGoldPrice showNat (goldApi dojiDownEnv) = Inr (Some 2345)"
    by (simp add: env_defs world_fine)
  have d2: "fetchDojiPrice showNat (dojiApi dojiDownEnv)
     = Inl (GoldPriceError ''Failed to fetch DOJI prices'' ''DOJI'')"
    by (simp add: env_defs doji_down)
  have w3: "fetchWorldGoldPrice showNat (goldApi btmcDownEnv) = Inr (Some 2345)"
    by (simp add: env_defs world_fine)
  have d3: "fetchDojiPrice showNat (dojiApi btmcDownEnv) = Inr dojiText"
    by (simp add: env_defs doji_fine)
  have b3: "fetchBaoTinPrice showNat (btmcApi btmcDownEnv)
     = Inl (GoldPriceError ''API Error: undefined - undefined'' ''BTMC'')"
    by (simp add: env_defs btmc_down)
  from first_failure_ends_fetching [of showNat worldDownEnv
      "GoldPriceError ''API Error: 500 - Internal Server Error'' ''World Gold''"] w1
  have r1: "requested (fst (fetchAndNotifyPrices showNat worldDownEnv)) = [GoldApi]" by blast
  from first_failure_ends_fetching [of showNat dojiDownEnv
      "GoldPriceError ''Failed to fetch DOJI prices'' ''DOJI''" 2345] w2 d2
  have r2: "requested (fst (fetchAndNotifyPrices showNat dojiDownEnv)) = [GoldApi, DojiApi]"
    by blast
  from first_failure_ends_fetching [of showNat btmcDownEnv
      "GoldPriceError ''API Error: undefined - undefined'' ''BTMC''" 2345 dojiText] w3 d3 b3
  have r3: "requested (fst (fetchAndNotifyPrices showNat btmcDownEnv))
              = [GoldApi, DojiApi, BtmcApi]"
    by blast
  from w1 w2 d2 w3 d3 b3 r1 r2 r3 show ?thesis by simp
qed

text \<open>
  When the world source answers with status 500, the requests of the cycle are the
  world request alone: neither DOJI nor BTMC is fetched.
\<close>

theorem failed_world_fetch_skips_shops_counterexample:
  "fetchWorldGoldPrice showNat (goldApi worldDownEnv)
     = Inl (GoldPriceError ''API Error: 500 - Internal Server Error'' ''World Gold'') \<and>
   requested (fst (fetchAndNotifyPrices showNat worldDownEnv)) = [GoldApi] \<and>
   DojiApi \<notin> set (requested (fst (fetchAndNotifyPrices showNat worldDownEnv))) \<and>
   BtmcApi \<notin> set (requested (fst (fetchAndNotifyPrices showNat worldDownEnv)))"
proof -
  have w: "fetchWorldGoldPrice showNat (goldApi worldDownEnv)
     = Inl (GoldPriceError ''API Error: 500 - Internal Server Error'' ''World Gold'')"
    by (simp add: env_defs world_down)
  from cycle_world_fails [OF w] show ?thesis using w by simp
qed

text \<open>
  C2: one notification for every cycle. A cycle calls \<open>sendMessage\<close> at most once: with
  the report when the three fetches have succeeded, with one warning naming the source
  when a fetch has failed with a \<open>GoldPriceError\<close>, and not at all when the world
  payload has no price, since formatting the missing price throws a TypeError, which
  the \<open>catch\<close> block logs and drops. The text goes out only if the chat id is set and
  the bot accepts it: a send that fails is followed by no other message.
\<close>

theorem at_most_one_notice:
  "length (notices (fst (fetchAndNotifyPrices n2s e))) \<le> 1 \<and>
   (notices (fst (fetchAndNotifyPrices n2s e)) = []
      \<longleftrightarrow> fetchWorldGoldPrice n2s (goldApi e) = Inr None) \<and>
   ((Report, text) \<in> set (notices (fst (fetchAndNotifyPrices n2s e))) \<longleftrightarrow>
      (\<exists>w d b. fetchWorldGoldPrice n2s (goldApi e) = Inr (Some w) \<and>
               fetchDojiPrice n2s (dojiApi e) = Inr d \<and>
               fetchBaoTinPrice n2s (btmcApi e) = Inr b \<and>
               text = reportText (localeTime e) (replaceFrom None (n2s w)) d b)) \<and>
   ((Warning, text) \<in> set (notices (fst (fetchAndNotifyPrices n2s e))) \<longleftrightarrow>
      (\<exists>m s. text = warningText s m \<and>
         (fetchWorldGoldPrice n2s (goldApi e) = Inl (GoldPriceError m s) \<or>
          (\<exists>w. fetchWorldGoldPrice n2s (goldApi e) = Inr (Some w) \<and>
             (fetchDojiPrice n2s (dojiApi e) = Inl (GoldPriceError m s) \<or>
              (\<exists>d. fetchDojiPrice n2s (dojiApi e) = Inr d \<and>
                   fetchBaoTinPrice n2s (btmcApi e) = Inl (GoldPriceError m s))))))) \<and>
   delivered (fst (fetchAndNotifyPrices n2s e))
     = filter (\<lambda>text. chatId e \<noteq> None \<and> chatId e \<noteq> Some [] \<and> botSend e text = None)
         (map snd (notices (fst (fetchAndNotifyPrices n2s e))))"
proof -
  let ?ns = "notices (fst (fetchAndNotifyPrices n2s e))"
  have len: "length ?ns \<le> 1"
    by (cases rule: fetch_cases [of n2s e]) (simp_all add: cycle_notices)
  have empty: "?ns = [] \<longleftrightarrow> fetchWorldGoldPrice n2s (goldApi e) = Inr None"
    by (cases rule: fetch_cases [of n2s e]) (simp_all add: cycle_notices)
  have report: "(Report, text) \<in> set ?ns \<longleftrightarrow>
      (\<exists>w d b. fetchWorldGoldPrice n2s (goldApi e) = Inr (Some w) \<and>
               fetchDojiPrice n2s (dojiApi e) = Inr d \<and>
               fetchBaoTinPrice n2s (btmcApi e) = Inr b \<and>
               text = reportText (localeTime e) (replaceFrom None (n2s w)) d b)"
    by (cases rule: fetch_cases [of n2s e]) (auto simp: cycle_notices)
  have warning: "(Warning, text) \<in> set ?ns \<longleftrightarrow>
      (\<exists>m s. text = warningText s m \<and>
         (fetchWorldGoldPrice n2s (goldApi e) = Inl (GoldPriceError m s) \<or>
          (\<exists>w. fetchWorldGoldPrice n2s (goldApi e) = Inr (Some w) \<and>
             (fetchDojiPrice n2s (dojiApi e) = Inl (GoldPriceError m s) \<or>
              (\<exists>d. fetchDojiPrice n2s (dojiApi e) = Inr d \<and>
                   fetchBaoTinPrice n2s (btmcApi e) = Inl (GoldPriceError m s))))))"
    by (cases rule: fetch_cases [of n2s e]) (auto simp: cycle_notices)
  from len empty report warning cycle_delivered [of n2s e] show ?thesis by blast
qed

theorem at_most_one_notice_witness:
  "notices (fst (fetchAndNotifyPrices showNat allFineEnv))
     = [(Report, reportText ''11/3/2026, 7:00:00 AM'' ''2,345'' dojiText btmcText)] \<and>
   delivered (fst (fetchAndNotifyPrices showNat allFineEnv))
     = [reportText ''11/3/2026, 7:00:00 AM'' ''2,345'' dojiText btmcText] \<and>
   length (notices (fst (fetchAndNotifyPrices showNat allFineEnv))) \<le> 1 \<and>
   fetchWorldGoldPrice showNat (goldApi allFineEnv) \<noteq> Inr None"
  using at_most_one_notice [of showNat allFineEnv]
  by (simp add: report_example)

text \<open>
  A world payload without a price: the cycle makes the world request and nothing
  else, no report and no warning.
\<close>

theorem missing_price_sends_nothing_counterexample:
  "fetchAndNotifyPrices showNat noPriceEnv = ([Request GoldApi], Inr ()) \<and>
   notices (fst (fetchAndNotifyPrices showNat noPriceEnv)) = [] \<and>
   delivered (fst (fetchAndNotifyPrices showNat noPriceEnv)) = []"
proof -
  have "fetchWorldGoldPrice showNat (goldApi noPriceEnv) = Inr None"
    by (simp add: env_defs fetchWorldGoldPrice_def)
  then have "fetchAndNotifyPrices showNat noPriceEnv = ([Request GoldApi], Inr ())"
    by (rule cycle_no_price)
  then show ?thesis by simp
qed

text \<open>
  C7: the same payloads give the same report up to the time. Two cycles that get the
  same outcome from the three sources either both hand over a report, and the two
  reports are one text around the two time stamps, or neither hands over a report,
  and they hand over the same warning or nothing.
\<close>

theorem reports_differ_in_timestamp_only:
  assumes "goldApi e1 = goldApi e2" and "dojiApi e1 = dojiApi e2" and "btmcApi e1 = btmcApi e2"
  shows "(\<exists>pre post.
            notices (fst (fetchAndNotifyPrices n2s e1)) = [(Report, pre @ localeTime e1 @ post)] \<and>
            notices (fst (fetchAndNotifyPrices n2s e2)) = [(Report, pre @ localeTime e2 @ post)])
         \<or> (notices (fst (fetchAndNotifyPrices n2s e1)) = notices (fst (fetchAndNotifyPrices n2s e2)) \<and>
             Report \<notin> fst ` set (notices (fst (fetchAndNotifyPrices n2s e1))))"
proof (cases rule: fetch_cases [of n2s e1])
  case (world_fails m)
  with assms show ?thesis by (simp add: cycle_notices)
next
  case no_price
  with assms show ?thesis by (simp add: cycle_notices)
next
  case (doji_fails w m)
  with assms show ?thesis by (simp add: cycle_notices)
next
  case (btmc_fails w d m)
  with assms show ?thesis by (simp add: cycle_notices)
next
  case (all_fetched w d b)
  from reportText_around_time [of "replaceFrom None (n2s w)" d b] obtain pre post
    where split: "\<And>now. reportText now (replaceFrom None (n2s w)) d b = pre @ now @ post"
    by blast
  from all_fetched assms
  have "notices (fst (fetchAndNotifyPrices n2s e1)) = [(Report, pre @ localeTime e1 @ post)]"
    and "notices (fst (fetchAndNotifyPrices n2s e2)) = [(Report, pre @ localeTime e2 @ post)]"
    by (simp_all add: cycle_notices split)
  then show ?thesis by blast
qed

theorem reports_differ_in_timestamp_only_witness:
  "goldApi allFineEnv = goldApi laterEnv \<and> dojiApi allFineEnv = dojiApi laterEnv \<and>
   btmcApi allFineEnv = btmcApi laterEnv \<and>
   localeTime allFineEnv = ''11/3/2026, 7:00:00 AM'' \<and>
   localeTime laterEnv = ''11/3/2026, 7:10:00 AM'' \<and>
   (\<exists>pre post.
      notices (fst (fetchAndNotifyPrices showNat allFineEnv))
        = [(Report, pre @ ''11/3/2026, 7:00:00 AM'' @ post)] \<and>
      notices (fst (fetchAndNotifyPrices showNat laterEnv))
        = [(Report, pre @ ''11/3/2026, 7:10:00 AM'' @ post)])"
proof -
  have same: "goldApi allFineEnv = goldApi laterEnv" "dojiApi allFineEnv = dojiApi laterEnv"
    "btmcApi allFineEnv = btmcApi laterEnv"
    by (simp_all add: env_defs)
  have times: "localeTime allFineEnv = ''11/3/2026, 7:00:00 AM''"
    "localeTime laterEnv = ''11/3/2026, 7:10:00 AM''"
    by (simp_all add: env_defs)
  have report: "Report \<in> fst ` set (notices (fst (fetchAndNotifyPrices showNat allFineEnv)))"
    by (simp add: report_example)
  from reports_differ_in_timestamp_only [OF same, of showNat] report
  have "\<exists>pre post.
      notices (fst (fetchAndNotifyPrices showNat allFineEnv))
        = [(Report, pre @ localeTime allFineEnv @ post)] \<and>
      notices (fst (fetchAndNotifyPrices showNat laterEnv))
        = [(Report, pre @ localeTime laterEnv @ post)]"
    by blast
  with same times show ?thesis by simp
qed

section \<open>The world price fetcher\<close>

text \<open>
  C3: the error outcomes of the world price fetcher. Every error that leaves the
  fetcher is a \<open>GoldPriceError\<close> with the source \<open>World Gold\<close>: an \<open>AxiosError\<close> gives
  the message \<open>API Error: status - statusText\<close> (both \<open>undefined\<close> when the error has
  no response), every other error, such as the TypeError of a \<open>null\<close> body, gives
  the generic message. A payload that is an object without \<open>price\<close> throws nothing:
  the fetcher returns \<open>undefined\<close> as the price.
\<close>

theorem fetchWorld_outcomes:
  "(fetchWorldGoldPrice n2s api = Inl err \<longrightarrow> (\<exists>m. err = GoldPriceError m ''World Gold'')) \<and>
   fetchWorldGoldPrice n2s (Inl (AxiosError (Some (status, statusText))))
     = Inl (GoldPriceError (''API Error: '' @ n2s status @ '' - '' @ statusText) ''World Gold'') \<and>
   fetchWorldGoldPrice n2s (Inl (AxiosError None))
     = Inl (GoldPriceError ''API Error: undefined - undefined'' ''World Gold'') \<and>
   ((\<forall>response. error \<noteq> AxiosError response) \<longrightarrow>
      fetchWorldGoldPrice n2s (Inl error)
        = Inl (GoldPriceError ''Failed to fetch world gold price'' ''World Gold'')) \<and>
   fetchWorldGoldPrice n2s (Inr None)
     = Inl (GoldPriceError ''Failed to fetch world gold price'' ''World Gold'') \<and>
   fetchWorldGoldPrice n2s (Inr (Some data)) = Inr (price data)"
proof -
  have a: "fetchWorldGoldPrice n2s api = Inl err \<longrightarrow> (\<exists>m. err = GoldPriceError m ''World Gold'')"
    using fetchWorld_error by blast
  have b: "(\<forall>response. error \<noteq> AxiosError response) \<longrightarrow>
      fetchWorldGoldPrice n2s (Inl error)
        = Inl (GoldPriceError ''Failed to fetch world gold price'' ''World Gold'')"
    by (cases error) (simp_all add: fetchWorldGoldPrice_def)
  show ?thesis using a b by (simp add: fetchWorldGoldPrice_def apiErrorMessage_def)
qed

theorem fetchWorld_outcomes_witness:
  "fetchWorldGoldPrice showNat (Inl (AxiosError (Some (500, ''Internal Server Error''))))
     = Inl (GoldPriceError ''API Error: 500 - Internal Server Error'' ''World Gold'') \<and>
   (\<exists>m. GoldPriceError ''API Error: 500 - Internal Server Error'' ''World Gold''
      = (GoldPriceError m ''World Gold'' :: nat js_error)) \<and>
   (\<forall>response. (TypeError :: nat js_error) \<noteq> AxiosError response) \<and>
   fetchWorldGoldPrice showNat (Inl TypeError)
     = Inl (GoldPriceError ''Failed to fetch world gold price'' ''World Gold'')"
  using fetchWorld_outcomes [of showNat "Inl (AxiosError (Some (500, ''Internal Server Error'')))"
      "GoldPriceError ''API Error: 500 - Internal Server Error'' ''World Gold''" 500
      "''Internal Server Error''" TypeError "\<lparr>price = Some 5\<rparr>"]
  by (simp add: showNat_500)

text \<open>A payload without a price field is returned as a price, not as a failure.\<close>

theorem fetchWorld_missing_price_counterexample:
  "fetchWorldGoldPrice showNat (Inr (Some \<lparr>price = None\<rparr>)) = Inr None"
  by (simp add: fetchWorldGoldPrice_def)

section \<open>The number formatter\<close>

text \<open>
  C8: a number and its decimal string are formatted alike. \<open>formatNumber\<close> turns its
  argument into a string first, so a number \<open>n\<close> and the string \<open>n.toString()\<close> give
  the same text, whatever the rendering \<open>n2s\<close> of numbers is.
\<close>

theorem formatNumber_number_like_string:
  "formatNumber n2s (JNumber n) = formatNumber n2s (JString (n2s n))"
  by (simp add: formatNumber_def toString_def)

text \<open>
  C4: separators belong to the integer part only. The example of the specification
  holds, \<open>1234567.89\<close> becomes \<open>1,234,567.89\<close>. A fraction of more than three digits
  is grouped as well: the pattern looks at every run of digits, so \<open>1234.56789\<close>
  becomes \<open>1,234.56,789\<close>, with a comma after the decimal point.
\<close>

theorem formatNumber_commas_in_long_fraction:
  "formatNumber n2s (JString ''1234567.89'') = Inr ''1,234,567.89'' \<and>
   formatNumber n2s (JString ''1234.56789'') = Inr ''1,234.56,789''"
  by (simp add: format_defs)

section \<open>The BTMC parser\<close>

text \<open>
  C5: each of the five fields of a BTMC record (name, karat, purity, buy price, sell
  price) is the first non-empty value among its five slots, probed in the order 1 to
  5, whatever slots the other fields use. In particular a buy price that is there
  only under \<open>@pb_3\<close> is the buy price of the record.
\<close>

theorem btmc_fields_first_non_empty:
  "(find truthy (map item [''@n_1'', ''@n_2'', ''@n_3'', ''@n_4'', ''@n_5'']) = Some name
      \<longrightarrow> itemName item = name) \<and>
   (find truthy (map item [''@k_1'', ''@k_2'', ''@k_3'', ''@k_4'', ''@k_5'']) = Some karat
      \<longrightarrow> itemKarat item = karat) \<and>
   (find truthy (map item [''@h_1'', ''@h_2'', ''@h_3'', ''@h_4'', ''@h_5'']) = Some purity
      \<longrightarrow> itemPurity item = purity) \<and>
   (find truthy (map item [''@pb_1'', ''@pb_2'', ''@pb_3'', ''@pb_4'', ''@pb_5'']) = Some buy
      \<longrightarrow> itemBuyPrice item = buy) \<and>
   (find truthy (map item [''@ps_1'', ''@ps_2'', ''@ps_3'', ''@ps_4'', ''@ps_5'']) = Some sell
      \<longrightarrow> itemSellPrice item = sell) \<and>
   (\<not> truthy (item ''@pb_1'') \<and> \<not> truthy (item ''@pb_2'') \<and> item ''@pb_3'' = Some p \<and> p \<noteq> []
      \<longrightarrow> itemBuyPrice item = Some p)"
proof -
  have n: "find truthy (map item [''@n_1'', ''@n_2'', ''@n_3'', ''@n_4'', ''@n_5'']) = Some name
      \<longrightarrow> itemName item = name"
    unfolding itemName_def using orElse_first_truthy by (simp del: find.simps)
  have k: "find truthy (map item [''@k_1'', ''@k_2'', ''@k_3'', ''@k_4'', ''@k_5'']) = Some karat
      \<longrightarrow> itemKarat item = karat"
    unfolding itemKarat_def using orElse_first_truthy by (simp del: find.simps)
  have h: "find truthy (map item [''@h_1'', ''@h_2'', ''@h_3'', ''@h_4'', ''@h_5'']) = Some purity
      \<longrightarrow> itemPurity item = purity"
    unfolding itemPurity_def using orElse_first_truthy by (simp del: find.simps)
  have b: "find truthy (map item [''@pb_1'', ''@pb_2'', ''@pb_3'', ''@pb_4'', ''@pb_5'']) = Some buy
      \<longrightarrow> itemBuyPrice item = buy"
    unfolding itemBuyPrice_def using orElse_first_truthy by (simp del: find.simps)
  have s: "find truthy (map item [''@ps_1'', ''@ps_2'', ''@ps_3'', ''@ps_4'', ''@ps_5'']) = Some sell
      \<longrightarrow> itemSellPrice item = sell"
    unfolding itemSellPrice_def using orElse_first_truthy by (simp del: find.simps)
  have third: "\<not> truthy (item ''@pb_1'') \<and> \<not> truthy (item ''@pb_2'') \<and> item ''@pb_3'' = Some p \<and> p \<noteq> []
      \<longrightarrow> itemBuyPrice item = Some p"
    by (simp add: itemBuyPrice_def orElse_def truthy_def)
  from n k h b s third show ?thesis by blast
qed

theorem btmc_fields_first_non_empty_witness:
  "find truthy (map mixedSlotsItem [''@n_1'', ''@n_2'', ''@n_3'', ''@n_4'', ''@n_5''])
     = Some (Some ''VANG MIENG SJC'') \<and>
   itemName mixedSlotsItem = Some ''VANG MIENG SJC'' \<and>
   find truthy (map mixedSlotsItem [''@pb_1'', ''@pb_2'', ''@pb_3'', ''@pb_4'', ''@pb_5''])
     = Some (Some ''1234567'') \<and>
   \<not> truthy (mixedSlotsItem ''@pb_1'') \<and> \<not> truthy (mixedSlotsItem ''@pb_2'') \<and>
   mixedSlotsItem ''@pb_3'' = Some ''1234567'' \<and>
   itemBuyPrice mixedSlotsItem = Some ''1234567'' \<and>
   itemKarat mixedSlotsItem = Some ''24k'' \<and>
   itemPurity mixedSlotsItem = Some ''999.9'' \<and>
   itemSellPrice mixedSlotsItem = Some ''1250000''"
  using btmc_fields_first_non_empty [of mixedSlotsItem "Some ''VANG MIENG SJC''" "Some ''24k''"
      "Some ''999.9''" "Some ''1234567''" "Some ''1250000''" "''1234567''"]
  by (simp add: mixedSlotsItem_def truthy_def)

text \<open>
  C9: a kept record without a price. When a record that passes the filter has no
  truthy value in the first four buy slots and no fifth buy slot at all (or the same
  for the sell slots), the price is \<open>undefined\<close>, formatting it throws, and the whole
  fetch fails with the generic \<open>GoldPriceError\<close> of BTMC: no block of any other record
  is returned. Five slots that are there and empty give the empty string as the
  price instead, which is formatted like any other string.
\<close>

theorem btmc_unresolved_price_fails:
  assumes "Data dl = Some items" and "item \<in> set items" and "keepItem item"
    and "(\<not> truthy (item ''@pb_1'') \<and> \<not> truthy (item ''@pb_2'') \<and> \<not> truthy (item ''@pb_3'')
            \<and> \<not> truthy (item ''@pb_4'') \<and> item ''@pb_5'' = None)
         \<or> (\<not> truthy (item ''@ps_1'') \<and> \<not> truthy (item ''@ps_2'') \<and> \<not> truthy (item ''@ps_3'')
            \<and> \<not> truthy (item ''@ps_4'') \<and> item ''@ps_5'' = None)"
  shows "fetchBaoTinPrice n2s (Inr (Some \<lparr>DataList = Some dl\<rparr>))
           = Inl (GoldPriceError ''Failed to fetch BTMC prices'' ''BTMC'')"
proof -
  from assms(4) have "itemBuyPrice item = None \<or> itemSellPrice item = None"
    unfolding itemBuyPrice_def itemSellPrice_def using orElse_all_falsy by metis
  then have thrown: "formatBtmcItem n2s item = Inl TypeError"
    using formatBtmcItem_no_buy formatBtmcItem_no_sell by blast
  from assms(2,3) have kept: "item \<in> set (filter keepItem items)" by simp
  from mapE_fails [of item "filter keepItem items" "formatBtmcItem n2s" TypeError, OF kept thrown]
  obtain e where "mapE (formatBtmcItem n2s) (filter keepItem items) = Inl e" ..
  then have "btmcBlocks n2s (Some \<lparr>DataList = Some dl\<rparr>) = Inl e"
    using assms(1) by (simp add: btmcBlocks_def)
  then show ?thesis by (simp add: fetchBaoTin_resolved)
qed


theorem btmc_unresolved_price_fails_witness:
  "Data \<lparr>Data = Some [mixedSlotsItem, noBuyItem]\<rparr> = Some [mixedSlotsItem, noBuyItem] \<and>
   noBuyItem \<in> set [mixedSlotsItem, noBuyItem] \<and> keepItem noBuyItem \<and>
   \<not> truthy (noBuyItem ''@pb_1'') \<and> \<not> truthy (noBuyItem ''@pb_2'') \<and>
   \<not> truthy (noBuyItem ''@pb_3'') \<and> \<not> truthy (noBuyItem ''@pb_4'') \<and>
   noBuyItem ''@pb_5'' = None \<and>
   fetchBaoTinPrice showNat (Inr (Some \<lparr>DataList = Some \<lparr>Data = Some [mixedSlotsItem, noBuyItem]\<rparr>\<rparr>))
     = Inl (GoldPriceError ''Failed to fetch BTMC prices'' ''BTMC'')"
proof -
  have d: "Data \<lparr>Data = Some [mixedSlotsItem, noBuyItem]\<rparr> = Some [mixedSlotsItem, noBuyItem]"
    by simp
  have m: "noBuyItem \<in> set [mixedSlotsItem, noBuyItem]" by simp
  have k: "keepItem noBuyItem"
    by (simp add: keepItem_def nameHasSJC_def itemName_def orElse_def truthy_def noBuyItem_def)
  have s: "\<not> truthy (noBuyItem ''@pb_1'') \<and> \<not> truthy (noBuyItem ''@pb_2'') \<and>
   \<not> truthy (noBuyItem ''@pb_3'') \<and> \<not> truthy (noBuyItem ''@pb_4'') \<and>
   noBuyItem ''@pb_5'' = None"
    by (simp add: truthy_def noBuyItem_def)
  have f: "fetchBaoTinPrice showNat (Inr (Some \<lparr>DataList = Some \<lparr>Data = Some [mixedSlotsItem, noBuyItem]\<rparr>\<rparr>))
     = Inl (GoldPriceError ''Failed to fetch BTMC prices'' ''BTMC'')"
    by (rule btmc_unresolved_price_fails [OF d m k disjI1 [OF s]])
  from d m k s f show ?thesis by simp
qed

text \<open>
  A kept record whose five buy slots are all empty strings: the fetch succeeds, with
  an empty buy price in the block.
\<close>

theorem btmc_empty_buy_slots_counterexample:
  "keepItem emptyBuyItem \<and>
   emptyBuyItem ''@pb_1'' = Some [] \<and> emptyBuyItem ''@pb_2'' = Some [] \<and>
   emptyBuyItem ''@pb_3'' = Some [] \<and> emptyBuyItem ''@pb_4'' = Some [] \<and>
   emptyBuyItem ''@pb_5'' = Some [] \<and>
   fetchBaoTinPrice showNat (Inr (btmcPayload [emptyBuyItem]))
     = Inr (''- SJC:\<newline>  Mua:  VND\<newline>  B'' @ aAcute @ ''n: 1,250,000 VND'')"
  by (simp add: btmc_defs btmcPayload_def emptyBuyItem_def format_defs)

section \<open>The DOJI parser\<close>

text \<open>
  Whenever the fetch returns a text, the text is made of one block for each row of
  the first table of the first collection whose name has the brand marker, in their
  order, then a line break, then one block for each row of the first table of the
  second collection whose name has one of the two purity tokens, in their order, each
  block on lines of its own. The block of a row with plain prices is the block of the
  specification: the buy line before the sell line, both grouped by thousands.
\<close>

lemma doji_blocks_of_kept_rows:
  assumes "fetchDojiPrice n2s (Inr (Inr data)) = Inr out"
  shows "\<exists>gl t ts rows jt jts jrows blocks jblocks.
           GoldList data = Some gl \<and>
           DGPlist gl = Some (t # ts) \<and> Row t = Some rows \<and>
           JewelryList gl = Some (jt # jts) \<and> Row jt = Some jrows \<and>
           list_all2 specBlockOf (filter specBrandRow rows) blocks \<and>
           list_all2 specBlockOf (filter specPurityRow jrows) jblocks \<and>
           out = specJoin blocks @ ''\<newline>'' @ specJoin jblocks"
proof -
  from assms have ok: "dojiBlocks n2s data = Inr out"
    by (simp add: fetchDoji_parsed split: sum.splits)
  then obtain gl where gl: "GoldList data = Some gl"
    by (auto simp: dojiBlocks_def split: option.splits)
  from ok gl obtain rows where rows: "firstTableRows (DGPlist gl) = (Inr rows :: 'a js_error + doji_row list)"
    by (auto simp: dojiBlocks_def split: sum.splits)
  from ok gl rows obtain kept where kept: "filterE isBrandRow rows = (Inr kept :: 'a js_error + doji_row list)"
    by (auto simp: dojiBlocks_def split: sum.splits)
  from ok gl rows kept obtain blocks where blocks: "mapE (formatDojiRow n2s) kept = Inr blocks"
    by (auto simp: dojiBlocks_def split: sum.splits)
  from ok gl rows kept blocks obtain jrows
    where jrows: "firstTableRows (JewelryList gl) = (Inr jrows :: 'a js_error + doji_row list)"
    by (auto simp: dojiBlocks_def Let_def split: sum.splits)
  from ok gl rows kept blocks jrows obtain jkept
    where jkept: "filterE isPurityRow jrows = (Inr jkept :: 'a js_error + doji_row list)"
    by (auto simp: dojiBlocks_def Let_def split: sum.splits)
  from ok gl rows kept blocks jrows jkept obtain jblocks
    where jblocks: "mapE (formatDojiRow n2s) jkept = Inr jblocks"
    by (auto simp: dojiBlocks_def Let_def split: sum.splits)
  from ok gl rows kept blocks jrows jkept jblocks
  have out: "out = specJoin blocks @ ''\<newline>'' @ specJoin jblocks"
    by (simp add: dojiBlocks_def Let_def joinLines_specJoin)
  from rows obtain t ts where t: "DGPlist gl = Some (t # ts)" "Row t = Some rows"
    using firstTableRows_result by blast
  from jrows obtain jt jts where jt: "JewelryList gl = Some (jt # jts)" "Row jt = Some jrows"
    using firstTableRows_result by blast
  have k1: "kept = filter specBrandRow rows"
    using filterE_spec [OF kept] isBrandRow_result by blast
  have k2: "jkept = filter specPurityRow jrows"
    using filterE_spec [OF jkept] isPurityRow_result by blast
  have b1: "list_all2 specBlockOf kept blocks"
  proof (rule mapE_spec [OF blocks])
    fix x y assume "x \<in> set kept" and "formatDojiRow n2s x = Inr y"
    then show "specBlockOf x y" using k1 formatDojiRow_result by auto
  qed
  have b2: "list_all2 specBlockOf jkept jblocks"
  proof (rule mapE_spec [OF jblocks])
    fix x y assume "x \<in> set jkept" and "formatDojiRow n2s x = Inr y"
    then show "specBlockOf x y" using k2 formatDojiRow_result by auto
  qed
  from gl t jt k1 k2 b1 b2 out show ?thesis by blast
qed


text \<open>
  C6: the rows of the DOJI block. The rows that pass the brand filter and then the
  rows that pass the purity filter each give a block with the buy line before the
  sell line, and no other row gives a block. The prices are grouped by
  \<open>formatNumber\<close>, which groups every run of digits: integer prices are grouped by
  thousands, and a buy price \<open>1234.56789\<close> comes out as \<open>1,234.56,789\<close>, with a
  comma in the fraction, where grouping by thousands gives \<open>1,234.56789\<close>.
\<close>

theorem doji_block_commas_in_long_fraction:
  "fetchDojiPrice n2s (Inr (Inr (dojiPayload [brandTable] [purityTable])))
     = Inr (''- DOJI HN:\<newline>  Mua: 8,500,000 VND\<newline>  B'' @ aAcute @ ''n: 8,700,000 VND\<newline>''
            @ ''- DOJI HCM:\<newline>  Mua: 8,450,000 VND\<newline>  B'' @ aAcute @ ''n: 8,650,000 VND\<newline>''
            @ ''- Nhan 24k:\<newline>  Mua: 7,300,000 VND\<newline>  B'' @ aAcute @ ''n: 7,400,000 VND\<newline>''
            @ ''- Nhan 9999:\<newline>  Mua: 7,400,000 VND\<newline>  B'' @ aAcute @ ''n: 7,500,000 VND'') \<and>
   fetchDojiPrice n2s (Inr (Inr (dojiPayload [longFractionTable] [jewelryTable])))
     = Inr (''- DOJI HN:\<newline>  Mua: 1,234.56,789 VND\<newline>  B'' @ aAcute @ ''n: 8,700,000 VND\<newline>''
            @ ''- Nhan 9999:\<newline>  Mua: 7,400,000 VND\<newline>  B'' @ aAcute @ ''n: 7,500,000 VND'')"
  by (simp add: doji_defs dojiPayload_def brandTable_def purityTable_def longFractionTable_def
      jewelryTable_def dojiRow_def format_defs)

text \<open>
  The block of the specification for the same row has no comma in the fraction.
\<close>

lemma long_fraction_spec_block:
  "specRowBlock (dojiRow ''DOJI HN'' ''1234.56789'' ''8700000'')
     = Some (''- DOJI HN:\<newline>  Mua: 1,234.56789 VND\<newline>  B'' @ aAcute @ ''n: 8,700,000 VND'')"
  by (simp add: specRowBlock_def dojiRow_def specThousands_def specDigit_def)

text \<open>
  C10: the first table only, and no table at all. The parser reads the first table of
  each of the two collections: tables after the first never change the result. When
  one of the collections has no table, the fetch fails with the generic
  \<open>GoldPriceError\<close> of DOJI.
\<close>

theorem doji_first_table_only:
  "(GoldList data = Some gl \<and> DGPlist gl = Some (t # ts) \<and> JewelryList gl = Some (jt # jts) \<longrightarrow>
      fetchDojiPrice n2s (Inr (Inr data))
        = fetchDojiPrice n2s
            (Inr (Inr \<lparr>GoldList = Some \<lparr>DGPlist = Some [t], JewelryList = Some [jt]\<rparr>\<rparr>))) \<and>
   (GoldList data = Some gl \<and>
    (DGPlist gl = None \<or> DGPlist gl = Some [] \<or> JewelryList gl = None \<or> JewelryList gl = Some [])
      \<longrightarrow> fetchDojiPrice n2s (Inr (Inr data))
            = Inl (GoldPriceError ''Failed to fetch DOJI prices'' ''DOJI''))"
proof -
  have a: "GoldList data = Some gl \<and> DGPlist gl = Some (t # ts) \<and> JewelryList gl = Some (jt # jts) \<longrightarrow>
      fetchDojiPrice n2s (Inr (Inr data))
        = fetchDojiPrice n2s
            (Inr (Inr \<lparr>GoldList = Some \<lparr>DGPlist = Some [t], JewelryList = Some [jt]\<rparr>\<rparr>))"
  proof (intro impI, elim conjE)
    assume gl: "GoldList data = Some gl" and t: "DGPlist gl = Some (t # ts)"
      and jt: "JewelryList gl = Some (jt # jts)"
    have "dojiBlocks n2s data
            = dojiBlocks n2s \<lparr>GoldList = Some \<lparr>DGPlist = Some [t], JewelryList = Some [jt]\<rparr>\<rparr>"
      unfolding dojiBlocks_def using gl t jt
      by (simp add: firstTableRows_def Let_def cong: sum.case_cong)
    then show "fetchDojiPrice n2s (Inr (Inr data))
        = fetchDojiPrice n2s
            (Inr (Inr \<lparr>GoldList = Some \<lparr>DGPlist = Some [t], JewelryList = Some [jt]\<rparr>\<rparr>))"
      by (simp only: fetchDoji_parsed)
  qed
  have b: "GoldList data = Some gl \<and>
    (DGPlist gl = None \<or> DGPlist gl = Some [] \<or> JewelryList gl = None \<or> JewelryList gl = Some [])
      \<longrightarrow> (\<exists>e. dojiBlocks n2s data = Inl e)"
  proof (intro impI, elim conjE)
    assume gl: "GoldList data = Some gl"
      and none: "DGPlist gl = None \<or> DGPlist gl = Some [] \<or> JewelryList gl = None
                   \<or> JewelryList gl = Some []"
    from none have "firstTableRows (DGPlist gl) = (Inl TypeError :: 'a js_error + doji_row list)
        \<or> firstTableRows (JewelryList gl) = (Inl TypeError :: 'a js_error + doji_row list)"
      by (auto simp: firstTableRows_def)
    then show "\<exists>e. dojiBlocks n2s data = Inl e"
      unfolding dojiBlocks_def Let_def using gl by (auto split: sum.splits)
  qed
  from a b show ?thesis by (auto simp: fetchDoji_parsed)
qed

theorem doji_first_table_only_witness:
  "GoldList (dojiPayload [sjcTable, otherTable] [jewelryTable, otherTable])
     = Some \<lparr>DGPlist = Some [sjcTable, otherTable], JewelryList = Some [jewelryTable, otherTable]\<rparr> \<and>
   fetchDojiPrice showNat (Inr (Inr (dojiPayload [sjcTable, otherTable] [jewelryTable, otherTable])))
     = fetchDojiPrice showNat (Inr (Inr (dojiPayload [sjcTable] [jewelryTable]))) \<and>
   GoldList (dojiPayload [sjcTable] [])
     = Some \<lparr>DGPlist = Some [sjcTable], JewelryList = Some []\<rparr> \<and>
   fetchDojiPrice showNat (Inr (Inr (dojiPayload [sjcTable] [])))
     = Inl (GoldPriceError ''Failed to fetch DOJI prices'' ''DOJI'')"
  using doji_first_table_only [of "dojiPayload [sjcTable, otherTable] [jewelryTable, otherTable]"
      "\<lparr>DGPlist = Some [sjcTable, otherTable], JewelryList = Some [jewelryTable, otherTable]\<rparr>"
      sjcTable "[otherTable]" jewelryTable "[otherTable]" showNat]
    doji_first_table_only [of "dojiPayload [sjcTable] []"
      "\<lparr>DGPlist = Some [sjcTable], JewelryList = Some []\<rparr>" sjcTable "[]" jewelryTable "[]" showNat]
  by (simp add: dojiPayload_def)


end
